theory Spec2Isabelle
  imports Main "HOL-Library.Word" "HOL-Library.Signed_Division"
begin

unbundle bit_operations_syntax

section \<open>Texas Instruments ADS79XX SPI ADC driver (linux/iio/ti-ads79xx.c)\<close>

text \<open>
  Conventions of the embedding.
  \<^item> \<open>u16\<close> is \<open>16 word\<close>; the C type \<open>unsigned int\<close> is \<open>32 word\<close>.
  \<^item> A C \<open>int\<close> is a HOL \<open>int\<close> in the range of 32 bits; where the C arithmetic could leave
    that range the conversion \<open>s32\<close> (two's complement wrap-around) is written out.
  \<^item> The driver state \<open>struct ti_ads79xx_state\<close> is a record that every operation takes and
    returns; the two transfer buffers are lists, and a store past the end of \<open>tx_buf\<close> is the
    error \<open>Tx_overrun\<close>.
  \<^item> The SPI bus, the regulator and the clock are parameters of the operations.
\<close>

subsection \<open>Control register bits and helper macros\<close>

type_synonym u16 = "16 word"
type_synonym u32 = "32 word"

definition s32 :: "int \<Rightarrow> int" where
  "s32 k = signed_take_bit 31 k"

definition ADS79XX_CR_MANUAL :: u32 where
  "ADS79XX_CR_MANUAL = push_bit 12 1"

definition ADS79XX_CR_WRITE :: u32 where
  "ADS79XX_CR_WRITE = push_bit 11 1"

definition ADS79XX_CR_CHAN :: "u32 \<Rightarrow> u32" where
  "ADS79XX_CR_CHAN ch = push_bit 7 ch"

definition ADS79XX_CR_RANGE_5V :: u32 where
  "ADS79XX_CR_RANGE_5V = push_bit 6 1"

definition ADS79XX_MAX_CHAN :: nat where
  "ADS79XX_MAX_CHAN = 16"

text \<open>\<open>EXTRACT(val, dec, bits)\<close> is \<open>(val >> dec) & ((1 << bits) - 1)\<close>, on a \<open>u16\<close> promoted
  to \<open>int\<close>.\<close>

definition EXTRACT :: "u16 \<Rightarrow> nat \<Rightarrow> nat \<Rightarrow> int" where
  "EXTRACT val dec bits = (drop_bit dec (uint val)) AND (push_bit bits 1 - 1)"

text \<open>The command word that both \<open>ti_ads79xx_update_scan_mode\<close> and
  \<open>ti_ads79xx_scan_direct\<close> compute, \<open>ADS79XX_CR_WRITE | ADS79XX_CR_CHAN(ch) | st->settings\<close>,
  as the \<open>u16\<close> that is stored in the transmit word.\<close>

definition ti_ads79xx_cmd :: "u32 \<Rightarrow> u32 \<Rightarrow> u16" where
  "ti_ads79xx_cmd ch settings =
     ucast (ADS79XX_CR_WRITE OR ADS79XX_CR_CHAN ch OR settings)"

subsection \<open>Constants of the kernel headers\<close>

text \<open>Values of \<open>errno-base.h\<close>, \<open>errno.h\<close>, \<open>linux/errno.h\<close>, \<open>linux/iio/iio.h\<close> and
  \<open>linux/iio/types.h\<close>. \<open>EINVAL\<close> is "invalid argument"; \<open>EOPNOTSUPP\<close> and \<open>ENOTSUPP\<close> are the
  two codes for an operation that is not supported.\<close>

definition EAGAIN :: int where "EAGAIN = 11"
definition ENOMEM :: int where "ENOMEM = 12"
definition EINVAL :: int where "EINVAL = 22"
definition EOPNOTSUPP :: int where "EOPNOTSUPP = 95"
definition ENOTSUPP :: int where "ENOTSUPP = 524"

definition IIO_CHAN_INFO_RAW :: int where "IIO_CHAN_INFO_RAW = 0"
definition IIO_CHAN_INFO_SCALE :: int where "IIO_CHAN_INFO_SCALE = 2"

definition IIO_VAL_INT :: int where "IIO_VAL_INT = 1"
definition IIO_VAL_FRACTIONAL :: int where "IIO_VAL_FRACTIONAL = 10"

definition IRQ_HANDLED :: int where "IRQ_HANDLED = 1"

definition BIT :: "int \<Rightarrow> nat" where
  "BIT n = push_bit (nat n) 1"

subsection \<open>Channel tables\<close>

datatype iio_chan_type = IIO_VOLTAGE | IIO_TIMESTAMP

datatype iio_endian = IIO_CPU | IIO_BE | IIO_LE

record iio_scan_type =
  sign :: char
  realbits :: nat
  storagebits :: nat
  shift :: nat
  endianness :: iio_endian

record iio_chan_spec =
  chan_type :: iio_chan_type
  indexed :: nat
  channel :: int
  info_mask_separate :: nat
  info_mask_shared_by_type :: nat
  address :: nat
  datasheet_name :: string
  scan_index :: int
  scan_type :: iio_scan_type

text \<open>\<open>__stringify(index)\<close>: the decimal digits of the index.\<close>

fun stringify :: "nat \<Rightarrow> string" where
  "stringify n =
     (if n < 10 then [char_of (48 + n)]
      else stringify (n div 10) @ [char_of (48 + n mod 10)])"

declare stringify.simps [simp del]

text \<open>The \<open>shift\<close> field is a \<open>u8\<close>: the difference is reduced modulo 256.\<close>

definition ADS79XX_V_CHAN :: "nat \<Rightarrow> nat \<Rightarrow> iio_chan_spec" where
  "ADS79XX_V_CHAN index bits =
     \<lparr> chan_type = IIO_VOLTAGE,
       indexed = 1,
       channel = int index,
       info_mask_separate = BIT IIO_CHAN_INFO_RAW,
       info_mask_shared_by_type = BIT IIO_CHAN_INFO_SCALE,
       address = index,
       datasheet_name = ''CH'' @ stringify index,
       scan_index = int index,
       scan_type =
         \<lparr> sign = CHR ''u'',
           realbits = bits,
           storagebits = 16,
           shift = nat ((12 - int bits) mod 256),
           endianness = IIO_CPU \<rparr> \<rparr>"

text \<open>\<open>IIO_CHAN_SOFT_TIMESTAMP(_si)\<close> of \<open>linux/iio/iio.h\<close>; the fields it does not name
  are zero.\<close>

definition IIO_CHAN_SOFT_TIMESTAMP :: "nat \<Rightarrow> iio_chan_spec" where
  "IIO_CHAN_SOFT_TIMESTAMP si =
     \<lparr> chan_type = IIO_TIMESTAMP,
       indexed = 0,
       channel = - 1,
       info_mask_separate = 0,
       info_mask_shared_by_type = 0,
       address = 0,
       datasheet_name = [],
       scan_index = int si,
       scan_type =
         \<lparr> sign = CHR ''s'',
           realbits = 64,
           storagebits = 64,
           shift = 0,
           endianness = IIO_CPU \<rparr> \<rparr>"

definition DECLARE_ADS79XX_4_CHANNELS :: "nat \<Rightarrow> iio_chan_spec list" where
  "DECLARE_ADS79XX_4_CHANNELS bits =
     [ADS79XX_V_CHAN 0 bits, ADS79XX_V_CHAN 1 bits, ADS79XX_V_CHAN 2 bits,
      ADS79XX_V_CHAN 3 bits, IIO_CHAN_SOFT_TIMESTAMP 4]"

definition DECLARE_ADS79XX_8_CHANNELS :: "nat \<Rightarrow> iio_chan_spec list" where
  "DECLARE_ADS79XX_8_CHANNELS bits =
     [ADS79XX_V_CHAN 0 bits, ADS79XX_V_CHAN 1 bits, ADS79XX_V_CHAN 2 bits,
      ADS79XX_V_CHAN 3 bits, ADS79XX_V_CHAN 4 bits, ADS79XX_V_CHAN 5 bits,
      ADS79XX_V_CHAN 6 bits, ADS79XX_V_CHAN 7 bits, IIO_CHAN_SOFT_TIMESTAMP 8]"

definition DECLARE_ADS79XX_12_CHANNELS :: "nat \<Rightarrow> iio_chan_spec list" where
  "DECLARE_ADS79XX_12_CHANNELS bits =
     [ADS79XX_V_CHAN 0 bits, ADS79XX_V_CHAN 1 bits, ADS79XX_V_CHAN 2 bits,
      ADS79XX_V_CHAN 3 bits, ADS79XX_V_CHAN 4 bits, ADS79XX_V_CHAN 5 bits,
      ADS79XX_V_CHAN 6 bits, ADS79XX_V_CHAN 7 bits, ADS79XX_V_CHAN 8 bits,
      ADS79XX_V_CHAN 9 bits, ADS79XX_V_CHAN 10 bits, ADS79XX_V_CHAN 11 bits,
      IIO_CHAN_SOFT_TIMESTAMP 12]"

definition DECLARE_ADS79XX_16_CHANNELS :: "nat \<Rightarrow> iio_chan_spec list" where
  "DECLARE_ADS79XX_16_CHANNELS bits =
     [ADS79XX_V_CHAN 0 bits, ADS79XX_V_CHAN 1 bits, ADS79XX_V_CHAN 2 bits,
      ADS79XX_V_CHAN 3 bits, ADS79XX_V_CHAN 4 bits, ADS79XX_V_CHAN 5 bits,
      ADS79XX_V_CHAN 6 bits, ADS79XX_V_CHAN 7 bits, ADS79XX_V_CHAN 8 bits,
      ADS79XX_V_CHAN 9 bits, ADS79XX_V_CHAN 10 bits, ADS79XX_V_CHAN 11 bits,
      ADS79XX_V_CHAN 12 bits, ADS79XX_V_CHAN 13 bits, ADS79XX_V_CHAN 14 bits,
      ADS79XX_V_CHAN 15 bits, IIO_CHAN_SOFT_TIMESTAMP 16]"

definition ti_ads7950_channels :: "iio_chan_spec list" where
  "ti_ads7950_channels = DECLARE_ADS79XX_4_CHANNELS 12"
definition ti_ads7951_channels :: "iio_chan_spec list" where
  "ti_ads7951_channels = DECLARE_ADS79XX_8_CHANNELS 12"
definition ti_ads7952_channels :: "iio_chan_spec list" where
  "ti_ads7952_channels = DECLARE_ADS79XX_12_CHANNELS 12"
definition ti_ads7953_channels :: "iio_chan_spec list" where
  "ti_ads7953_channels = DECLARE_ADS79XX_16_CHANNELS 12"
definition ti_ads7954_channels :: "iio_chan_spec list" where
  "ti_ads7954_channels = DECLARE_ADS79XX_4_CHANNELS 10"
definition ti_ads7955_channels :: "iio_chan_spec list" where
  "ti_ads7955_channels = DECLARE_ADS79XX_8_CHANNELS 10"
definition ti_ads7956_channels :: "iio_chan_spec list" where
  "ti_ads7956_channels = DECLARE_ADS79XX_12_CHANNELS 10"
definition ti_ads7957_channels :: "iio_chan_spec list" where
  "ti_ads7957_channels = DECLARE_ADS79XX_16_CHANNELS 10"
definition ti_ads7958_channels :: "iio_chan_spec list" where
  "ti_ads7958_channels = DECLARE_ADS79XX_4_CHANNELS 8"
definition ti_ads7959_channels :: "iio_chan_spec list" where
  "ti_ads7959_channels = DECLARE_ADS79XX_8_CHANNELS 8"
definition ti_ads7960_channels :: "iio_chan_spec list" where
  "ti_ads7960_channels = DECLARE_ADS79XX_12_CHANNELS 8"
definition ti_ads7961_channels :: "iio_chan_spec list" where
  "ti_ads7961_channels = DECLARE_ADS79XX_16_CHANNELS 8"

datatype ti_ads79xx_id =
  ADS7950 | ADS7951 | ADS7952 | ADS7953 | ADS7954 | ADS7955
  | ADS7956 | ADS7957 | ADS7958 | ADS7959 | ADS7960 | ADS7961

record ti_ads79xx_chip_info_t =
  info_channels :: "iio_chan_spec list"
  info_num_channels :: nat

text \<open>\<open>ARRAY_SIZE\<close> of a table is the length of the list, the timestamp entry included.\<close>

definition chip_info_of :: "iio_chan_spec list \<Rightarrow> ti_ads79xx_chip_info_t" where
  "chip_info_of tab = \<lparr> info_channels = tab, info_num_channels = length tab \<rparr>"

fun ti_ads79xx_chip_info :: "ti_ads79xx_id \<Rightarrow> ti_ads79xx_chip_info_t" where
  "ti_ads79xx_chip_info ADS7950 = chip_info_of ti_ads7950_channels"
| "ti_ads79xx_chip_info ADS7951 = chip_info_of ti_ads7951_channels"
| "ti_ads79xx_chip_info ADS7952 = chip_info_of ti_ads7952_channels"
| "ti_ads79xx_chip_info ADS7953 = chip_info_of ti_ads7953_channels"
| "ti_ads79xx_chip_info ADS7954 = chip_info_of ti_ads7954_channels"
| "ti_ads79xx_chip_info ADS7955 = chip_info_of ti_ads7955_channels"
| "ti_ads79xx_chip_info ADS7956 = chip_info_of ti_ads7956_channels"
| "ti_ads79xx_chip_info ADS7957 = chip_info_of ti_ads7957_channels"
| "ti_ads79xx_chip_info ADS7958 = chip_info_of ti_ads7958_channels"
| "ti_ads79xx_chip_info ADS7959 = chip_info_of ti_ads7959_channels"
| "ti_ads79xx_chip_info ADS7960 = chip_info_of ti_ads7960_channels"
| "ti_ads79xx_chip_info ADS7961 = chip_info_of ti_ads7961_channels"

text \<open>The resolution a variant is declared with (the \<open>bits\<close> argument of its table): 12 bits for
  ADS7950 to ADS7953, 10 bits for ADS7954 to ADS7957, 8 bits for ADS7958 to ADS7961.\<close>

fun variant_bits :: "ti_ads79xx_id \<Rightarrow> nat" where
  "variant_bits ADS7950 = 12"
| "variant_bits ADS7951 = 12"
| "variant_bits ADS7952 = 12"
| "variant_bits ADS7953 = 12"
| "variant_bits ADS7954 = 10"
| "variant_bits ADS7955 = 10"
| "variant_bits ADS7956 = 10"
| "variant_bits ADS7957 = 10"
| "variant_bits ADS7958 = 8"
| "variant_bits ADS7959 = 8"
| "variant_bits ADS7960 = 8"
| "variant_bits ADS7961 = 8"

text \<open>The voltage channels of a variant: the entries of its table of type \<open>IIO_VOLTAGE\<close>.\<close>

definition voltage_channels :: "ti_ads79xx_id \<Rightarrow> iio_chan_spec list" where
  "voltage_channels v =
     filter (\<lambda>c. chan_type c = IIO_VOLTAGE) (info_channels (ti_ads79xx_chip_info v))"

subsection \<open>Driver state\<close>

text \<open>The fields of \<open>struct ti_ads79xx_state\<close> that the operations read or write; \<open>ring_xfer_len\<close>
  is \<open>ring_xfer.len\<close>. The buffers \<open>rx_buf\<close> and \<open>tx_buf\<close> have \<open>ADS79XX_MAX_CHAN + 10\<close> and
  \<open>ADS79XX_MAX_CHAN + 2\<close> entries.\<close>

record ti_ads79xx_state =
  ring_xfer_len :: nat
  single_tx :: u16
  single_rx :: u16
  settings :: u32
  rx_buf :: "u16 list"
  tx_buf :: "u16 list"

record iio_dev =
  channels :: "iio_chan_spec list"
  num_channels :: nat
  priv :: ti_ads79xx_state

datatype fault = Tx_overrun

text \<open>The state that \<open>devm_iio_device_alloc\<close> hands out: every byte zero.\<close>

definition zeroed_state :: ti_ads79xx_state where
  "zeroed_state =
     \<lparr> ring_xfer_len = 0, single_tx = 0, single_rx = 0, settings = 0,
       rx_buf = replicate (ADS79XX_MAX_CHAN + 10) 0,
       tx_buf = replicate (ADS79XX_MAX_CHAN + 2) 0 \<rparr>"

definition state_ok :: "ti_ads79xx_state \<Rightarrow> bool" where
  "state_ok st \<longleftrightarrow>
     length (rx_buf st) = ADS79XX_MAX_CHAN + 10 \<and> length (tx_buf st) = ADS79XX_MAX_CHAN + 2"

subsection \<open>ti_ads79xx_update_scan_mode\<close>

text \<open>\<open>for_each_set_bit(i, addr, size)\<close> visits the set bits of the bitmap below \<open>size\<close> (here
  \<open>nbits\<close>) in ascending order. The bitmap is the natural number whose binary digits are its
  bits.\<close>

definition for_each_set_bit :: "nat \<Rightarrow> nat \<Rightarrow> nat list" where
  "for_each_set_bit addr nbits = filter (bit addr) [0..<nbits]"

text \<open>\<open>st->tx_buf[len] = v\<close>.\<close>

definition tx_buf_store :: "ti_ads79xx_state \<Rightarrow> nat \<Rightarrow> u16 \<Rightarrow> fault + ti_ads79xx_state" where
  "tx_buf_store st len v =
     (if len < length (tx_buf st) then Inr (st\<lparr>tx_buf := (tx_buf st)[len := v]\<rparr>)
      else Inl Tx_overrun)"

text \<open>The body of the loop, for the remaining set bits: \<open>cmd = ...; st->tx_buf[len++] = cmd\<close>.\<close>

fun scan_mode_loop ::
  "nat list \<Rightarrow> ti_ads79xx_state \<Rightarrow> nat \<Rightarrow> fault + (ti_ads79xx_state \<times> nat)" where
  "scan_mode_loop [] st len = Inr (st, len)"
| "scan_mode_loop (i # rest) st len =
     (case tx_buf_store st len (ti_ads79xx_cmd (of_nat i) (settings st)) of
        Inl e \<Rightarrow> Inl e
      | Inr st' \<Rightarrow> scan_mode_loop rest st' (len + 1))"

definition ti_ads79xx_update_scan_mode :: "iio_dev \<Rightarrow> nat \<Rightarrow> fault + (iio_dev \<times> int)" where
  "ti_ads79xx_update_scan_mode indio_dev active_scan_mask =
     (case scan_mode_loop (for_each_set_bit active_scan_mask (num_channels indio_dev))
             (priv indio_dev) 0 of
        Inl e \<Rightarrow> Inl e
      | Inr (st1, len1) \<Rightarrow>
          (case tx_buf_store st1 len1 0 of
             Inl e \<Rightarrow> Inl e
           | Inr st2 \<Rightarrow>
               (case tx_buf_store st2 (len1 + 1) 0 of
                  Inl e \<Rightarrow> Inl e
                | Inr st3 \<Rightarrow>
                    Inr (indio_dev\<lparr>priv := st3\<lparr>ring_xfer_len := (len1 + 2) * 2\<rparr>\<rparr>, 0))))"

subsection \<open>ti_ads79xx_trigger_handler\<close>

text \<open>The bus of the ring message: from the words clocked out to the status of \<open>spi_sync\<close> and
  the words clocked in. The transfer has \<open>ring_xfer.len\<close> bytes, two per word; the words
  received replace the front of \<open>rx_buf\<close>.\<close>

type_synonym spi_ring_bus = "u16 list \<Rightarrow> int \<times> u16 list"

definition spi_sync_ring :: "spi_ring_bus \<Rightarrow> ti_ads79xx_state \<Rightarrow> int \<times> ti_ads79xx_state" where
  "spi_sync_ring bus st =
     (let n = ring_xfer_len st div 2;
          (err, rx) = bus (take n (tx_buf st));
          got = take (min n (length (rx_buf st))) rx
      in (err, st\<lparr>rx_buf := got @ drop (length got) (rx_buf st)\<rparr>))"

text \<open>What the handler does to the framework, in order: the push of a payload (the words from
  the address handed over) with its timestamp, and the notification of the trigger.\<close>

datatype event = Push_to_buffers "u16 list" int | Trigger_notify_done

definition ti_ads79xx_trigger_handler ::
  "spi_ring_bus \<Rightarrow> int \<Rightarrow> iio_dev \<Rightarrow> int \<times> iio_dev \<times> event list" where
  "ti_ads79xx_trigger_handler bus time_ns indio_dev =
     (let (err, st) = spi_sync_ring bus (priv indio_dev);
          pushed = (if err \<noteq> 0 then []
                    else [Push_to_buffers (drop 2 (rx_buf st)) time_ns])
      in (IRQ_HANDLED, indio_dev\<lparr>priv := st\<rparr>, pushed @ [Trigger_notify_done]))"

subsection \<open>ti_ads79xx_scan_direct\<close>

text \<open>The bus of the single-shot message (three transfers of one word): from the command word
  to the status of \<open>spi_sync\<close> and the word the third transfer stores in \<open>single_rx\<close>. The
  function runs between \<open>mutex_lock\<close> and \<open>mutex_unlock\<close> on every path; the embedding is
  sequential and has no lock.\<close>

type_synonym spi_single_bus = "u16 \<Rightarrow> int \<times> u16"

definition ti_ads79xx_scan_direct ::
  "spi_single_bus \<Rightarrow> ti_ads79xx_state \<Rightarrow> u32 \<Rightarrow> int \<times> ti_ads79xx_state" where
  "ti_ads79xx_scan_direct bus st ch =
     (let st1 = st\<lparr>single_tx := ti_ads79xx_cmd ch (settings st)\<rparr>;
          (ret, rx) = bus (single_tx st1);
          st2 = st1\<lparr>single_rx := rx\<rparr>
      in if ret \<noteq> 0 then (ret, st2)
         else if (word_of_int (EXTRACT (single_rx st2) 12 4) :: u32) \<noteq> ch
           then (- EAGAIN, st2)
         else (EXTRACT (single_rx st2) 0 12, st2))"

subsection \<open>ti_ads79xx_get_range and ti_ads79xx_read_raw\<close>

text \<open>\<open>regulator_voltage\<close> is what \<open>regulator_get_voltage\<close> returns. C division truncates
  towards zero (\<open>sdiv\<close>).\<close>

definition ti_ads79xx_get_range :: "int \<Rightarrow> ti_ads79xx_state \<Rightarrow> int" where
  "ti_ads79xx_get_range regulator_voltage st =
     (let vref = regulator_voltage
      in if vref < 0 then vref
         else (let vref = vref sdiv 1000
               in if settings st AND ADS79XX_CR_RANGE_5V \<noteq> 0 then s32 (vref * 2) else vref))"

text \<open>The result is the return value, \<open>*val\<close>, \<open>*val2\<close> and the device.\<close>

definition ti_ads79xx_read_raw ::
  "spi_single_bus \<Rightarrow> int \<Rightarrow> iio_dev \<Rightarrow> iio_chan_spec \<Rightarrow> int \<Rightarrow> int \<Rightarrow> int
     \<Rightarrow> int \<times> int \<times> int \<times> iio_dev" where
  "ti_ads79xx_read_raw bus regulator_voltage indio_dev chan val val2 m =
     (if m = IIO_CHAN_INFO_RAW then
        (let (ret, st) = ti_ads79xx_scan_direct bus (priv indio_dev) (of_nat (address chan))
         in if ret < 0 then (ret, val, val2, indio_dev\<lparr>priv := st\<rparr>)
            else (IIO_VAL_INT, drop_bit (shift (scan_type chan)) ret, val2,
                  indio_dev\<lparr>priv := st\<rparr>))
      else if m = IIO_CHAN_INFO_SCALE then
        (let ret = ti_ads79xx_get_range regulator_voltage (priv indio_dev)
         in if ret < 0 then (ret, val, val2, indio_dev)
            else (IIO_VAL_FRACTIONAL, ret,
                  s32 (s32 (push_bit (realbits (scan_type chan)) 1) - 1), indio_dev))
      else (- EINVAL, val, val2, indio_dev))"

subsection \<open>ti_ads79xx_probe\<close>

text \<open>What the kernel services answer during the probe: the return value of \<open>spi_setup\<close>,
  whether the allocation succeeds, the error of \<open>devm_regulator_get\<close> (0 for a regulator),
  the return values of \<open>regulator_enable\<close>, \<open>iio_triggered_buffer_setup\<close> and
  \<open>iio_device_register\<close>, and the error of \<open>iio_sw_trigger_create\<close> (0 for a trigger).\<close>

record probe_env =
  spi_setup_ret :: int
  alloc_ok :: bool
  regulator_get_err :: int
  regulator_enable_ret :: int
  triggered_buffer_setup_ret :: int
  device_register_ret :: int
  sw_trigger_create_err :: int

definition ti_ads79xx_probe :: "probe_env \<Rightarrow> ti_ads79xx_id \<Rightarrow> int \<times> iio_dev option" where
  "ti_ads79xx_probe env driver_data =
     (if spi_setup_ret env < 0 then (spi_setup_ret env, None)
      else if \<not> alloc_ok env then (- ENOMEM, None)
      else
        (let st = zeroed_state\<lparr>settings := ADS79XX_CR_MANUAL OR ADS79XX_CR_RANGE_5V\<rparr>;
             info = ti_ads79xx_chip_info driver_data;
             indio_dev = \<lparr> channels = info_channels info,
                           num_channels = info_num_channels info,
                           priv = st \<rparr>
         in if regulator_get_err env \<noteq> 0 then (regulator_get_err env, None)
            else if regulator_enable_ret env \<noteq> 0 then (regulator_enable_ret env, None)
            else if triggered_buffer_setup_ret env \<noteq> 0
              then (triggered_buffer_setup_ret env, None)
            else if device_register_ret env \<noteq> 0 then (device_register_ret env, None)
            else if sw_trigger_create_err env \<noteq> 0 then (sw_trigger_create_err env, None)
            else (0, Some indio_dev)))"

subsection \<open>Sequences of operations on a probed device\<close>

text \<open>The entry points the framework calls after the probe, each with what its environment
  answers.\<close>

datatype driver_op =
  Update_scan_mode nat
  | Trigger_handler spi_ring_bus int
  | Read_raw spi_single_bus int iio_chan_spec int int int

fun run_op :: "iio_dev \<Rightarrow> driver_op \<Rightarrow> fault + iio_dev" where
  "run_op d (Update_scan_mode m) =
     (case ti_ads79xx_update_scan_mode d m of Inl e \<Rightarrow> Inl e | Inr (d', r) \<Rightarrow> Inr d')"
| "run_op d (Trigger_handler bus t) =
     (case ti_ads79xx_trigger_handler bus t d of (r, d', evs) \<Rightarrow> Inr d')"
| "run_op d (Read_raw bus v chan val val2 m) =
     (case ti_ads79xx_read_raw bus v d chan val val2 m of (r, val', val2', d') \<Rightarrow> Inr d')"

fun run_ops :: "iio_dev \<Rightarrow> driver_op list \<Rightarrow> fault + iio_dev" where
  "run_ops d [] = Inr d"
| "run_ops d (x # xs) = (case run_op d x of Inl e \<Rightarrow> Inl e | Inr d' \<Rightarrow> run_ops d' xs)"

subsection \<open>Notions of the specification\<close>

text \<open>\<open>popcount\<close>: the number of one bits of a bitmap.\<close>

fun popcount :: "nat \<Rightarrow> nat" where
  "popcount n = (if n = 0 then 0 else n mod 2 + popcount (n div 2))"

declare popcount.simps [simp del]

text \<open>The number of voltage channels of a variant.\<close>

definition num_voltage_channels :: "ti_ads79xx_id \<Rightarrow> nat" where
  "num_voltage_channels v = length (voltage_channels v)"

text \<open>A scan mask over the channels of a variant selects voltage channels only.\<close>

definition scan_mask_of :: "ti_ads79xx_id \<Rightarrow> nat \<Rightarrow> bool" where
  "scan_mask_of v m \<longleftrightarrow> m < 2 ^ num_voltage_channels v"

section \<open>Properties\<close>

lemmas ti_ads79xx_channels_defs =
  ti_ads7950_channels_def ti_ads7951_channels_def ti_ads7952_channels_def
  ti_ads7953_channels_def ti_ads7954_channels_def ti_ads7955_channels_def
  ti_ads7956_channels_def ti_ads7957_channels_def ti_ads7958_channels_def
  ti_ads7959_channels_def ti_ads7960_channels_def ti_ads7961_channels_def
  DECLARE_ADS79XX_4_CHANNELS_def DECLARE_ADS79XX_8_CHANNELS_def
  DECLARE_ADS79XX_12_CHANNELS_def DECLARE_ADS79XX_16_CHANNELS_def

subsection \<open>Bits of the command word\<close>

lemma EXTRACT_eq: "EXTRACT val dec bits = uint (take_bit bits (drop_bit dec val))"
proof -
  have "push_bit bits 1 - 1 = (mask bits :: int)"
    by (simp add: mask_eq_exp_minus_1)
  then have "EXTRACT val dec bits = take_bit bits (drop_bit dec (uint val))"
    by (simp only: EXTRACT_def take_bit_eq_mask)
  also have "\<dots> = uint (take_bit bits (drop_bit dec val))"
    by (simp add: unsigned_take_bit_eq unsigned_drop_bit_eq bintr_uint)
  finally show ?thesis .
qed

lemma lt16_bits:
  fixes c :: u32
  assumes "c < 16" and "4 \<le> n"
  shows "\<not> bit c n"
proof -
  have "c AND mask 4 = c"
    using assms(1) by (intro less_mask_eq) simp
  then have "bit c n = bit (c AND mask 4) n" by simp
  also have "\<dots> = False" using \<open>4 \<le> n\<close> by (simp add: bit_and_iff bit_mask_iff)
  finally show ?thesis by simp
qed

lemma bit_CR_WRITE: "bit ADS79XX_CR_WRITE n \<longleftrightarrow> n = 11"
  unfolding ADS79XX_CR_WRITE_def
  by (auto simp only: bit_push_bit_iff bit_1_iff possible_bit_word) simp_all

lemma bit_CR_CHAN: "bit (ADS79XX_CR_CHAN c) n \<longleftrightarrow> 7 \<le> n \<and> n < 32 \<and> bit c (n - 7)"
  unfolding ADS79XX_CR_CHAN_def
  by (auto simp add: bit_push_bit_iff possible_bit_word dest: bit_imp_le_length)

lemma cmd_bit_iff:
  "bit (ti_ads79xx_cmd c s) n \<longleftrightarrow>
     n < 16 \<and> (n = 11 \<or> (7 \<le> n \<and> bit c (n - 7)) \<or> bit s n)"
  unfolding ti_ads79xx_cmd_def
  by (auto simp add: bit_word_ucast_iff bit_or_iff bit_CR_WRITE bit_CR_CHAN)

lemma cmd_chan_field:
  assumes c: "c < 16" and s0: "take_bit 4 (drop_bit 7 s) = 0"
  shows "take_bit 4 (drop_bit 7 (ti_ads79xx_cmd c s)) = ucast c"
proof (rule bit_word_eqI)
  fix n assume n: "n < LENGTH(16)"
  have sb: "\<not> bit s (n + 7)" if "n < 4"
  proof -
    have "bit (take_bit 4 (drop_bit 7 s)) n = bit s (n + 7)"
      using that by (simp add: bit_take_bit_iff bit_drop_bit_eq add.commute)
    with s0 show ?thesis by simp
  qed
  show "bit (take_bit 4 (drop_bit 7 (ti_ads79xx_cmd c s))) n = bit (ucast c :: u16) n"
  proof (cases "n < 4")
    case True
    with sb n show ?thesis
      by (simp add: bit_take_bit_iff bit_drop_bit_eq cmd_bit_iff bit_word_ucast_iff add.commute)
  next
    case False
    with lt16_bits[OF c, of n] show ?thesis
      by (simp add: bit_take_bit_iff bit_word_ucast_iff)
  qed
qed

lemma uint_ucast_lt16:
  fixes c :: u32
  assumes "c < 16"
  shows "uint (ucast c :: u16) = uint c"
proof -
  have "uint c < 16" using assms by (simp add: word_less_def)
  then have "take_bit 16 (uint c) = uint c"
    by (intro take_bit_int_eq_self) simp_all
  then show ?thesis by (simp add: unsigned_ucast_eq)
qed

lemma cmd_range_field:
  "EXTRACT (ti_ads79xx_cmd c s) 6 1 = uint (drop_bit 6 s AND 1)"
proof -
  have "take_bit 1 (drop_bit 6 (ti_ads79xx_cmd c s)) = ucast (drop_bit 6 s AND 1)"
  proof (rule bit_word_eqI)
    fix n assume "n < LENGTH(16)"
    show "bit (take_bit 1 (drop_bit 6 (ti_ads79xx_cmd c s))) n
        = bit (ucast (drop_bit 6 s AND 1) :: u16) n"
    proof (cases "n = 0")
      case True
      have "bit (take_bit 1 (drop_bit 6 (ti_ads79xx_cmd c s))) 0 = bit (ti_ads79xx_cmd c s) 6"
        by (simp only: bit_take_bit_iff bit_drop_bit_eq) simp
      moreover have "bit (ucast (drop_bit 6 s AND 1) :: u16) 0 = bit s 6"
        by (simp only: bit_word_ucast_iff bit_and_iff bit_drop_bit_eq bit_1_iff) simp
      ultimately show ?thesis using True by (simp add: cmd_bit_iff)
    next
      case False
      then show ?thesis
        by (simp add: bit_take_bit_iff bit_word_ucast_iff bit_and_iff bit_1_iff)
    qed
  qed
  moreover have "uint (ucast (drop_bit 6 s AND 1) :: u16) = uint (drop_bit 6 s AND 1)"
  proof -
    have "drop_bit 6 s AND 1 \<le> 1" by (rule word_and_le1)
    then have "uint (drop_bit 6 s AND 1) \<le> 1" by (simp add: word_le_def)
    then have "take_bit 16 (uint (drop_bit 6 s AND 1)) = uint (drop_bit 6 s AND 1)"
      by (intro take_bit_int_eq_self) simp_all
    then show ?thesis by (simp add: unsigned_ucast_eq)
  qed
  ultimately show ?thesis by (simp add: EXTRACT_eq)
qed

text \<open>
  Claim C3, as the code has it. The command word is \<open>WRITE | (c << 7) | s\<close>: the code does not
  set the MANUAL bit itself, it comes with the settings word. For every channel \<open>c\<close> in 0..15
  and every settings word \<open>s\<close> that has bit 12 (MANUAL) set and bits 10..7 clear, as the
  settings word of the driver has, the command word has bit 12 set, bit 11 (WRITE) set, bits
  10..7 equal to \<open>c\<close> and bit 6 equal to \<open>(s >> 6) & 1\<close>.
\<close>

theorem cmd_fields:
  assumes "c < 16" and "bit s 12" and "take_bit 4 (drop_bit 7 s) = 0"
  shows "bit (ti_ads79xx_cmd c s) 12 \<and> bit (ti_ads79xx_cmd c s) 11
    \<and> EXTRACT (ti_ads79xx_cmd c s) 7 4 = uint c
    \<and> EXTRACT (ti_ads79xx_cmd c s) 6 1 = uint (drop_bit 6 s AND 1)"
proof -
  have a: "bit (ti_ads79xx_cmd c s) 12" using assms(2) by (simp add: cmd_bit_iff)
  have b: "bit (ti_ads79xx_cmd c s) 11" by (simp add: cmd_bit_iff)
  have "EXTRACT (ti_ads79xx_cmd c s) 7 4 = uint (ucast c :: u16)"
    by (simp add: EXTRACT_eq cmd_chan_field[OF assms(1) assms(3)])
  then have d: "EXTRACT (ti_ads79xx_cmd c s) 7 4 = uint c"
    by (simp add: uint_ucast_lt16[OF assms(1)])
  from a b d cmd_range_field show ?thesis by simp
qed

text \<open>The theorem at channel 3 and the settings word of the probe: the command is \<open>0x19C0\<close>.\<close>

theorem cmd_fields_witness:
  "(3::u32) < 16 \<and> bit (ADS79XX_CR_MANUAL OR ADS79XX_CR_RANGE_5V) 12
   \<and> take_bit 4 (drop_bit 7 (ADS79XX_CR_MANUAL OR ADS79XX_CR_RANGE_5V)) = 0
   \<and> ti_ads79xx_cmd 3 (ADS79XX_CR_MANUAL OR ADS79XX_CR_RANGE_5V) = 0x19C0
   \<and> bit (0x19C0 :: u16) 12 \<and> bit (0x19C0 :: u16) 11
   \<and> EXTRACT 0x19C0 7 4 = 3 \<and> EXTRACT 0x19C0 6 1 = 1"
  using cmd_fields[of 3 "ADS79XX_CR_MANUAL OR ADS79XX_CR_RANGE_5V"]
  by (simp add: ADS79XX_CR_MANUAL_def ADS79XX_CR_RANGE_5V_def ti_ads79xx_cmd_def
      ADS79XX_CR_WRITE_def ADS79XX_CR_CHAN_def EXTRACT_def)

text \<open>Claim C3 as the specification states it, for every settings word, fails: with the settings
  word 0 the MANUAL bit of the command for channel 0 is clear, and with the settings word
  \<open>0x80\<close> bits 10..7 of the command for channel 0 are 1.\<close>

theorem cmd_fields_counterexample:
  "\<not> bit (ti_ads79xx_cmd 0 0) 12 \<and> EXTRACT (ti_ads79xx_cmd 0 0x80) 7 4 \<noteq> uint (0::u32)"
  by (simp add: ti_ads79xx_cmd_def ADS79XX_CR_WRITE_def ADS79XX_CR_CHAN_def EXTRACT_def)

subsection \<open>Channel tables\<close>

text \<open>
  Claim C7. For every chip variant and every voltage channel of its channel table, the real
  resolution of the channel is the one the variant is declared with, and the shift field is 12
  minus that resolution: 0 for the 12-bit parts, 2 for the 10-bit parts, 4 for the 8-bit parts.
\<close>

theorem channel_shift:
  assumes "chan \<in> set (info_channels (ti_ads79xx_chip_info v))"
    and "chan_type chan = IIO_VOLTAGE"
  shows "realbits (scan_type chan) = variant_bits v
    \<and> int (shift (scan_type chan)) = 12 - int (variant_bits v)
    \<and> shift (scan_type chan)
        = (if variant_bits v = 12 then 0 else if variant_bits v = 10 then 2 else 4)
    \<and> variant_bits v \<in> {8, 10, 12}"
  using assms
  by (cases v)
    (auto simp: chip_info_of_def ti_ads79xx_channels_defs ADS79XX_V_CHAN_def
      IIO_CHAN_SOFT_TIMESTAMP_def)

theorem channel_shift_witness:
  "ADS79XX_V_CHAN 5 10 \<in> set (info_channels (ti_ads79xx_chip_info ADS7955))
   \<and> chan_type (ADS79XX_V_CHAN 5 10) = IIO_VOLTAGE
   \<and> variant_bits ADS7955 = 10
   \<and> shift (scan_type (ADS79XX_V_CHAN 5 10)) = 2"
  using channel_shift[of "ADS79XX_V_CHAN 5 10" ADS7955]
  by (simp add: chip_info_of_def ti_ads79xx_channels_defs ADS79XX_V_CHAN_def)

subsection \<open>The transmit buffer of a scan\<close>

lemma tx_buf_store_ok:
  "len < length (tx_buf st) \<Longrightarrow> tx_buf_store st len v = Inr (st\<lparr>tx_buf := (tx_buf st)[len := v]\<rparr>)"
  by (simp add: tx_buf_store_def)

lemma scan_mode_loop_ok:
  "len + length bs \<le> length (tx_buf st) \<Longrightarrow>
   scan_mode_loop bs st len =
     Inr (st\<lparr>tx_buf := take len (tx_buf st)
                 @ map (\<lambda>i. ti_ads79xx_cmd (of_nat i) (settings st)) bs
                 @ drop (len + length bs) (tx_buf st)\<rparr>, len + length bs)"
proof (induction bs arbitrary: st len)
  case Nil
  then show ?case by simp
next
  case (Cons i rest)
  let ?v = "ti_ads79xx_cmd (of_nat i) (settings st)"
  let ?st = "st\<lparr>tx_buf := (tx_buf st)[len := ?v]\<rparr>"
  from Cons.prems have lt: "len < length (tx_buf st)" by simp
  have pre: "Suc len + length rest \<le> length (tx_buf ?st)" using Cons.prems by simp
  have tk: "take (Suc len) ((tx_buf st)[len := ?v]) = take len (tx_buf st) @ [?v]"
    using lt by (simp add: take_Suc_conv_app_nth)
  show ?case
    using Cons.IH[OF pre] tk lt
    by (simp add: tx_buf_store_ok)
qed

lemma not_bit_nat_ge:
  fixes m :: nat
  assumes "m < 2 ^ n" and "n \<le> i"
  shows "\<not> bit m i"
proof -
  have "(2::nat) ^ n \<le> 2 ^ i" using assms(2) by simp
  with assms(1) have "m < 2 ^ i" by (rule less_le_trans)
  then show ?thesis by (simp add: bit_iff_odd)
qed

lemma for_each_set_bit_mono:
  assumes "m < 2 ^ n" and "n \<le> k"
  shows "for_each_set_bit m k = for_each_set_bit m n"
proof -
  have "[0..<k] = [0..<n] @ [n..<k]"
    using assms(2) by (metis le_add_diff_inverse upt_add_eq_append zero_le)
  moreover have "filter (bit m) [n..<k] = []"
    using not_bit_nat_ge[OF assms(1)] by (simp add: filter_empty_conv)
  ultimately show ?thesis by (simp add: for_each_set_bit_def)
qed

lemma filter_bit_Suc:
  "filter (bit (m::nat)) [0..<Suc n] =
     (if odd m then [0] else []) @ map Suc (filter (bit (m div 2)) [0..<n])"
proof -
  have "[0..<Suc n] = 0 # map Suc [0..<n]"
    by (simp add: upt_conv_Cons map_Suc_upt del: upt_Suc)
  then show ?thesis
    by (simp add: filter_map comp_def bit_Suc bit_0 del: upt_Suc)
qed

lemma length_for_each_set_bit:
  "m < 2 ^ n \<Longrightarrow> length (for_each_set_bit m n) = popcount m"
proof (induction n arbitrary: m)
  case 0
  then show ?case by (simp add: for_each_set_bit_def popcount.simps)
next
  case (Suc n)
  then have "m div 2 < 2 ^ n" by simp
  from Suc.IH[OF this] show ?case
    unfolding for_each_set_bit_def filter_bit_Suc
    by (subst popcount.simps) (auto simp: odd_iff_mod_2_eq_one for_each_set_bit_def)
qed

lemma set_for_each_set_bit:
  "m < 2 ^ n \<Longrightarrow> set (for_each_set_bit m n) = {i. bit m i}"
  using not_bit_nat_ge[of m n] by (auto simp: for_each_set_bit_def not_le[symmetric])

lemma sorted_for_each_set_bit: "sorted_wrt (<) (for_each_set_bit m n)"
  by (simp add: for_each_set_bit_def sorted_wrt_filter)

lemma list_update_two:
  "2 \<le> length ys \<Longrightarrow> ys[0 := a, Suc 0 := b] = a # b # drop 2 ys"
  by (cases ys; cases "tl ys") auto

lemma update_scan_mode_result:
  assumes "length (for_each_set_bit m (num_channels d)) + 2 \<le> length (tx_buf (priv d))"
  shows "ti_ads79xx_update_scan_mode d m =
     Inr (d\<lparr>priv := (priv d)
            \<lparr>tx_buf := map (\<lambda>i. ti_ads79xx_cmd (of_nat i) (settings (priv d)))
                         (for_each_set_bit m (num_channels d))
                       @ [0, 0]
                       @ drop (length (for_each_set_bit m (num_channels d)) + 2)
                           (tx_buf (priv d)),
             ring_xfer_len := (length (for_each_set_bit m (num_channels d)) + 2) * 2\<rparr>\<rparr>, 0)"
proof -
  let ?bs = "for_each_set_bit m (num_channels d)"
  let ?k = "length ?bs"
  let ?st = "priv d"
  let ?cmds = "map (\<lambda>i. ti_ads79xx_cmd (of_nat i) (settings ?st)) ?bs"
  let ?tx1 = "?cmds @ drop ?k (tx_buf ?st)"
  let ?st1 = "?st\<lparr>tx_buf := ?tx1\<rparr>"
  have loop: "scan_mode_loop ?bs ?st 0 = Inr (?st1, ?k)"
    using scan_mode_loop_ok[of 0 ?bs ?st] assms by simp
  have len1: "length ?tx1 = length (tx_buf ?st)" using assms by simp
  have s1: "tx_buf_store ?st1 ?k 0 = Inr (?st1\<lparr>tx_buf := ?tx1[?k := 0]\<rparr>)"
    using assms len1 by (simp add: tx_buf_store_def)
  have s2: "tx_buf_store (?st1\<lparr>tx_buf := ?tx1[?k := 0]\<rparr>) (?k + 1) 0
      = Inr (?st1\<lparr>tx_buf := ?tx1[?k := 0, ?k + 1 := 0]\<rparr>)"
    using assms len1 by (simp add: tx_buf_store_def)
  have "2 \<le> length (drop ?k (tx_buf ?st))" using assms by simp
  from list_update_two[OF this, of 0 0]
  have fin: "?tx1[?k := 0, ?k + 1 := 0] = ?cmds @ [0, 0] @ drop (?k + 2) (tx_buf ?st)"
    by (simp add: list_update_append)
  show ?thesis
    unfolding ti_ads79xx_update_scan_mode_def
    by (simp only: loop s1 s2 fin sum.case prod.case) simp
qed

lemma num_channels_variant:
  "info_num_channels (ti_ads79xx_chip_info v) = num_voltage_channels v + 1
   \<and> num_voltage_channels v \<le> ADS79XX_MAX_CHAN"
  by (cases v)
    (simp_all add: num_voltage_channels_def voltage_channels_def chip_info_of_def
      ti_ads79xx_channels_defs ADS79XX_V_CHAN_def IIO_CHAN_SOFT_TIMESTAMP_def ADS79XX_MAX_CHAN_def)

lemma scan_mask_bits:
  assumes "num_channels d = info_num_channels (ti_ads79xx_chip_info v)"
    and "scan_mask_of v m"
  shows "length (for_each_set_bit m (num_channels d)) = popcount m"
    and "set (for_each_set_bit m (num_channels d)) = {i. bit m i}"
    and "popcount m \<le> ADS79XX_MAX_CHAN"
proof -
  let ?n = "num_voltage_channels v"
  have m: "m < 2 ^ ?n" using assms(2) by (simp add: scan_mask_of_def)
  have eq: "for_each_set_bit m (num_channels d) = for_each_set_bit m ?n"
    using for_each_set_bit_mono[OF m, of "num_channels d"] assms(1) num_channels_variant[of v]
    by simp
  show "length (for_each_set_bit m (num_channels d)) = popcount m"
    by (simp add: eq length_for_each_set_bit[OF m])
  show "set (for_each_set_bit m (num_channels d)) = {i. bit m i}"
    by (simp add: eq set_for_each_set_bit[OF m])
  have "length (for_each_set_bit m ?n) \<le> length [0..<?n]"
    unfolding for_each_set_bit_def by (rule length_filter_le)
  then show "popcount m \<le> ADS79XX_MAX_CHAN"
    using num_channels_variant[of v] by (simp add: length_for_each_set_bit[OF m])
qed

lemma for_each_set_bit_0: "for_each_set_bit 0 n = []"
  by (simp add: for_each_set_bit_def)

text \<open>When the set bits below \<open>num_channels\<close> and the two padding words do not fit into \<open>tx_buf\<close>,
  a store leaves the buffer. This needs 17 set bits: a mask that selects all 16 voltage channels
  of a 16-channel part and the timestamp entry of its table as well. The framework keeps the
  timestamp out of the scan mask, and the properties below are about masks over the voltage
  channels.\<close>

lemma tx_buf_store_length:
  "tx_buf_store st len v = Inr st' \<Longrightarrow>
     length (tx_buf st') = length (tx_buf st) \<and> rx_buf st' = rx_buf st"
  by (auto simp: tx_buf_store_def split: if_splits)

lemma scan_mode_loop_overrun:
  "len \<le> length (tx_buf st) \<Longrightarrow> length (tx_buf st) < len + length bs \<Longrightarrow>
     scan_mode_loop bs st len = Inl Tx_overrun"
proof (induction bs arbitrary: st len)
  case Nil
  then show ?case by simp
next
  case (Cons i rest)
  show ?case
  proof (cases "len < length (tx_buf st)")
    case True
    let ?st = "st\<lparr>tx_buf := (tx_buf st)[len := ti_ads79xx_cmd (of_nat i) (settings st)]\<rparr>"
    have "scan_mode_loop rest ?st (len + 1) = Inl Tx_overrun"
      using True Cons.prems by (intro Cons.IH) simp_all
    with True show ?thesis by (simp add: tx_buf_store_ok)
  next
    case False
    then show ?thesis by (simp add: tx_buf_store_def)
  qed
qed

lemma update_scan_mode_overrun:
  assumes "length (tx_buf (priv d)) < length (for_each_set_bit m (num_channels d)) + 2"
  shows "ti_ads79xx_update_scan_mode d m = Inl Tx_overrun"
proof -
  let ?bs = "for_each_set_bit m (num_channels d)"
  let ?k = "length ?bs"
  let ?st = "priv d"
  show ?thesis
  proof (cases "?k \<le> length (tx_buf ?st)")
    case False
    then have "scan_mode_loop ?bs ?st 0 = Inl Tx_overrun"
      by (intro scan_mode_loop_overrun) simp_all
    then show ?thesis by (simp add: ti_ads79xx_update_scan_mode_def)
  next
    case True
    let ?tx1 = "map (\<lambda>i. ti_ads79xx_cmd (of_nat i) (settings ?st)) ?bs @ drop ?k (tx_buf ?st)"
    let ?st1 = "?st\<lparr>tx_buf := ?tx1\<rparr>"
    have loop: "scan_mode_loop ?bs ?st 0 = Inr (?st1, ?k)"
      using scan_mode_loop_ok[of 0 ?bs ?st] True by simp
    have len1: "length ?tx1 = length (tx_buf ?st)" using True by simp
    show ?thesis
    proof (cases "?k < length (tx_buf ?st)")
      case False
      then have "tx_buf_store ?st1 ?k 0 = Inl Tx_overrun"
        using len1 by (simp add: tx_buf_store_def)
      then show ?thesis
        unfolding ti_ads79xx_update_scan_mode_def
        by (simp only: loop sum.case prod.case)
    next
      case lt: True
      have s1: "tx_buf_store ?st1 ?k 0 = Inr (?st1\<lparr>tx_buf := ?tx1[?k := 0]\<rparr>)"
        using lt len1 by (simp add: tx_buf_store_def)
      have "\<not> ?k + 1 < length (?tx1[?k := 0])"
        using assms len1 by simp
      then have s2: "tx_buf_store (?st1\<lparr>tx_buf := ?tx1[?k := 0]\<rparr>) (?k + 1) 0 = Inl Tx_overrun"
        by (simp add: tx_buf_store_def)
      show ?thesis
        unfolding ti_ads79xx_update_scan_mode_def
        by (simp only: loop s1 s2 sum.case prod.case)
    qed
  qed
qed

lemma for_each_set_bit_full: "for_each_set_bit 0x1FFFF 17 = [0..<17]"
proof -
  have "(0x1FFFF::nat) = 2 ^ 17 - 1" by simp
  then have "bit (0x1FFFF::nat) i \<longleftrightarrow> i < 17" for i
    by (simp only: bit_mask_iff mask_eq_exp_minus_1[symmetric]) simp
  then show ?thesis by (simp add: for_each_set_bit_def del: upt_Suc)
qed

lemma update_scan_mode_timestamp_bit:
  "ti_ads79xx_update_scan_mode
     \<lparr>channels = ti_ads7953_channels, num_channels = 17, priv = zeroed_state\<rparr> 0x1FFFF
   = Inl Tx_overrun"
  by (rule update_scan_mode_overrun)
    (simp add: for_each_set_bit_full zeroed_state_def ADS79XX_MAX_CHAN_def del: upt_Suc)

text \<open>
  Claim C1. For every scan mask \<open>m\<close> over the voltage channels of the device, on a state whose
  buffers have their declared sizes, \<open>ti_ads79xx_update_scan_mode\<close> returns 0 and leaves in
  \<open>tx_buf\<close> \<open>popcount m + 2\<close> words: first the command words of the set bits of \<open>m\<close> in
  ascending order, then two zero words. The list of the bits visited is ascending, holds exactly
  the set bits of \<open>m\<close> and has \<open>popcount m\<close> entries. The byte length recorded for the transfer
  is \<open>(popcount m + 2) * 2\<close>.
\<close>

theorem update_scan_mode_tx:
  assumes "state_ok (priv d)"
    and "num_channels d = info_num_channels (ti_ads79xx_chip_info v)"
    and "scan_mask_of v m"
  shows "\<exists>d'. ti_ads79xx_update_scan_mode d m = Inr (d', 0)
     \<and> length (tx_buf (priv d')) = ADS79XX_MAX_CHAN + 2
     \<and> take (popcount m + 2) (tx_buf (priv d'))
         = map (\<lambda>i. ti_ads79xx_cmd (of_nat i) (settings (priv d)))
             (for_each_set_bit m (num_channels d)) @ [0, 0]
     \<and> sorted_wrt (<) (for_each_set_bit m (num_channels d))
     \<and> set (for_each_set_bit m (num_channels d)) = {i. bit m i}
     \<and> length (for_each_set_bit m (num_channels d)) = popcount m
     \<and> ring_xfer_len (priv d') = (popcount m + 2) * 2"
proof -
  note sb = scan_mask_bits[OF assms(2,3)]
  have len: "length (tx_buf (priv d)) = ADS79XX_MAX_CHAN + 2"
    using assms(1) by (simp add: state_ok_def)
  have pre: "length (for_each_set_bit m (num_channels d)) + 2 \<le> length (tx_buf (priv d))"
    using sb(1,3) len by simp
  show ?thesis
    unfolding update_scan_mode_result[OF pre]
    using sb len by (simp add: sorted_for_each_set_bit)
qed

text \<open>The theorem on the ADS7951 as probed, with the mask \<open>{1, 4, 7}\<close>.\<close>

theorem update_scan_mode_tx_witness:
  "state_ok (priv \<lparr>channels = ti_ads7951_channels, num_channels = 9,
        priv = zeroed_state\<lparr>settings := 0x1040\<rparr>\<rparr>)
   \<and> num_channels \<lparr>channels = ti_ads7951_channels, num_channels = 9,
        priv = zeroed_state\<lparr>settings := 0x1040\<rparr>\<rparr> = info_num_channels (ti_ads79xx_chip_info ADS7951)
   \<and> scan_mask_of ADS7951 146
   \<and> popcount 146 = 3
   \<and> (\<exists>d'. ti_ads79xx_update_scan_mode \<lparr>channels = ti_ads7951_channels, num_channels = 9,
        priv = zeroed_state\<lparr>settings := 0x1040\<rparr>\<rparr> 146 = Inr (d', 0)
        \<and> take 5 (tx_buf (priv d')) = [0x18C0, 0x1A40, 0x1BC0, 0, 0]
        \<and> ring_xfer_len (priv d') = 10)"
proof -
  let ?d = "\<lparr>channels = ti_ads7951_channels, num_channels = 9,
        priv = zeroed_state\<lparr>settings := 0x1040\<rparr>\<rparr>"
  have h1: "state_ok (priv ?d)"
    by (simp add: state_ok_def zeroed_state_def)
  have h2: "num_channels ?d = info_num_channels (ti_ads79xx_chip_info ADS7951)"
    by (simp add: chip_info_of_def ti_ads79xx_channels_defs)
  have h3: "scan_mask_of ADS7951 146"
    by (simp add: scan_mask_of_def num_voltage_channels_def voltage_channels_def
        chip_info_of_def ti_ads79xx_channels_defs ADS79XX_V_CHAN_def IIO_CHAN_SOFT_TIMESTAMP_def)
  have p: "popcount 146 = 3" by code_simp
  have bs: "for_each_set_bit 146 9 = [1, 4, 7]" by code_simp
  have cmds: "map (\<lambda>i. ti_ads79xx_cmd (of_nat i) (0x1040 :: u32)) [1, 4, 7] = [0x18C0, 0x1A40, 0x1BC0]"
    by (simp add: ti_ads79xx_cmd_def ADS79XX_CR_WRITE_def ADS79XX_CR_CHAN_def)
  from update_scan_mode_tx[OF h1 h2 h3] obtain d' where
    r: "ti_ads79xx_update_scan_mode ?d 146 = Inr (d', 0)" and
    t: "take (popcount 146 + 2) (tx_buf (priv d'))
         = map (\<lambda>i. ti_ads79xx_cmd (of_nat i) (settings (priv ?d)))
             (for_each_set_bit 146 (num_channels ?d)) @ [0, 0]" and
    l: "ring_xfer_len (priv d') = (popcount 146 + 2) * 2"
    by blast
  have "take 5 (tx_buf (priv d')) = [0x18C0, 0x1A40, 0x1BC0, 0, 0]"
    using t p bs cmds by simp
  moreover have "ring_xfer_len (priv d') = 10"
    using l p by simp
  ultimately show ?thesis
    using h1 h2 h3 p r by blast
qed

text \<open>
  Claim C10. For every scan mask over the voltage channels of the device
  \<open>ti_ads79xx_update_scan_mode\<close> returns 0; for the empty mask it still writes the two zero
  words at the front of \<open>tx_buf\<close> and records a transfer of 4 bytes.
\<close>

theorem update_scan_mode_returns_zero:
  assumes "state_ok (priv d)"
    and "num_channels d = info_num_channels (ti_ads79xx_chip_info v)"
    and "scan_mask_of v m"
  shows "(\<exists>d'. ti_ads79xx_update_scan_mode d m = Inr (d', 0))
     \<and> (\<exists>d0. ti_ads79xx_update_scan_mode d 0 = Inr (d0, 0)
            \<and> take 2 (tx_buf (priv d0)) = [0, 0]
            \<and> ring_xfer_len (priv d0) = 4)"
proof -
  note sb = scan_mask_bits[OF assms(2,3)]
  have len: "length (tx_buf (priv d)) = ADS79XX_MAX_CHAN + 2"
    using assms(1) by (simp add: state_ok_def)
  have pre: "length (for_each_set_bit m (num_channels d)) + 2 \<le> length (tx_buf (priv d))"
    using sb(1,3) len by simp
  have pre0: "length (for_each_set_bit 0 (num_channels d)) + 2 \<le> length (tx_buf (priv d))"
    using len by (simp add: for_each_set_bit_0)
  have a: "\<exists>d'. ti_ads79xx_update_scan_mode d m = Inr (d', 0)"
    unfolding update_scan_mode_result[OF pre] by simp
  have b: "\<exists>d0. ti_ads79xx_update_scan_mode d 0 = Inr (d0, 0)
            \<and> take 2 (tx_buf (priv d0)) = [0, 0]
            \<and> ring_xfer_len (priv d0) = 4"
    unfolding update_scan_mode_result[OF pre0] by (simp add: for_each_set_bit_0)
  from a b show ?thesis ..
qed

theorem update_scan_mode_returns_zero_witness:
  "state_ok (priv \<lparr>channels = ti_ads7951_channels, num_channels = 9,
        priv = zeroed_state\<lparr>settings := 0x1040\<rparr>\<rparr>)
   \<and> num_channels \<lparr>channels = ti_ads7951_channels, num_channels = 9,
        priv = zeroed_state\<lparr>settings := 0x1040\<rparr>\<rparr>
       = info_num_channels (ti_ads79xx_chip_info ADS7951)
   \<and> scan_mask_of ADS7951 255
   \<and> (\<exists>d'. ti_ads79xx_update_scan_mode \<lparr>channels = ti_ads7951_channels, num_channels = 9,
        priv = zeroed_state\<lparr>settings := 0x1040\<rparr>\<rparr> 255 = Inr (d', 0))
   \<and> (\<exists>d0. ti_ads79xx_update_scan_mode \<lparr>channels = ti_ads7951_channels, num_channels = 9,
        priv = zeroed_state\<lparr>settings := 0x1040\<rparr>\<rparr> 0 = Inr (d0, 0)
        \<and> take 2 (tx_buf (priv d0)) = [0, 0] \<and> ring_xfer_len (priv d0) = 4)"
proof -
  let ?d = "\<lparr>channels = ti_ads7951_channels, num_channels = 9,
        priv = zeroed_state\<lparr>settings := 0x1040\<rparr>\<rparr>"
  have h1: "state_ok (priv ?d)"
    by (simp add: state_ok_def zeroed_state_def)
  have h2: "num_channels ?d = info_num_channels (ti_ads79xx_chip_info ADS7951)"
    by (simp add: chip_info_of_def ti_ads79xx_channels_defs)
  have h3: "scan_mask_of ADS7951 255"
    by (simp add: scan_mask_of_def num_voltage_channels_def voltage_channels_def
        chip_info_of_def ti_ads79xx_channels_defs ADS79XX_V_CHAN_def IIO_CHAN_SOFT_TIMESTAMP_def)
  from update_scan_mode_returns_zero[OF h1 h2 h3] h1 h2 h3 show ?thesis by blast
qed

subsection \<open>The single-shot read\<close>

lemma scan_direct_result:
  assumes "bus (ti_ads79xx_cmd ch (settings st)) = (ret, rx)"
  shows "ti_ads79xx_scan_direct bus st ch =
     (if ret \<noteq> 0 then ret
      else if uint (drop_bit 12 rx) = uint ch then uint (take_bit 12 rx)
      else - EAGAIN,
      st\<lparr>single_tx := ti_ads79xx_cmd ch (settings st), single_rx := rx\<rparr>)"
proof -
  have tag: "EXTRACT rx 12 4 = uint (drop_bit 12 rx)"
  proof -
    have "take_bit 4 (drop_bit 12 rx) = drop_bit 12 rx"
      by (rule bit_word_eqI) (auto simp add: bit_take_bit_iff bit_drop_bit_eq dest: bit_imp_le_length)
    then show ?thesis by (simp add: EXTRACT_eq)
  qed
  have low: "EXTRACT rx 0 12 = uint (take_bit 12 rx)"
    by (simp add: EXTRACT_eq)
  have "uint (drop_bit 12 rx) < 2 ^ 32"
    using uint_bounded[of "drop_bit 12 rx"] by simp
  then have "uint (ucast (drop_bit 12 rx) :: u32) = uint (drop_bit 12 rx)"
    by (simp add: unsigned_ucast_eq take_bit_int_eq_self)
  then have cmp: "(ucast (drop_bit 12 rx) :: u32) = ch
      \<longleftrightarrow> uint (drop_bit 12 rx) = uint ch"
    by (metis word_uint_eq_iff)
  show ?thesis
    using assms by (simp add: ti_ads79xx_scan_direct_def tag low cmp Let_def)
qed

lemma low12_bounds: "0 \<le> uint (take_bit 12 (rx :: u16)) \<and> uint (take_bit 12 rx) < 4096"
proof -
  have "uint (take_bit 12 rx) = take_bit 12 (uint rx)" by (simp add: unsigned_take_bit_eq)
  moreover have "take_bit 12 (uint rx) < 2 ^ 12" by (rule take_bit_int_less_exp)
  ultimately show ?thesis by simp
qed

text \<open>
  Claim C2. Let the bus answer the command word for channel \<open>ch\<close> with the status \<open>ret\<close> and the
  word \<open>rx\<close>. If the exchange succeeds (\<open>ret = 0\<close>) and bits 15..12 of \<open>rx\<close> equal \<open>ch\<close>,
  \<open>ti_ads79xx_scan_direct\<close> returns bits 11..0 of \<open>rx\<close>, a non-negative integer; if the exchange
  succeeds and they differ, it returns \<open>-EAGAIN\<close>; if the exchange fails, it returns the status
  unchanged.
\<close>

theorem scan_direct_tag_check:
  assumes "bus (ti_ads79xx_cmd ch (settings st)) = (ret, rx)"
  shows "(ret = 0 \<and> uint (drop_bit 12 rx) = uint ch \<longrightarrow>
            fst (ti_ads79xx_scan_direct bus st ch) = uint (take_bit 12 rx)
            \<and> 0 \<le> fst (ti_ads79xx_scan_direct bus st ch))
     \<and> (ret = 0 \<and> uint (drop_bit 12 rx) \<noteq> uint ch \<longrightarrow>
            fst (ti_ads79xx_scan_direct bus st ch) = - EAGAIN)
     \<and> (ret \<noteq> 0 \<longrightarrow> fst (ti_ads79xx_scan_direct bus st ch) = ret)"
  using low12_bounds[of rx]
  by (simp add: scan_direct_result[where bus=bus and st=st and ch=ch, OF assms])

text \<open>Channel 3 answered with \<open>0x3ABC\<close> reads 2748; channel 1 answered with \<open>0x2001\<close> is
  \<open>-EAGAIN\<close>; the status \<open>-5\<close> of the bus is returned as it is.\<close>

theorem scan_direct_tag_check_witness:
  "fst (ti_ads79xx_scan_direct (\<lambda>tx. (0, 0x3ABC)) (zeroed_state\<lparr>settings := 0x1040\<rparr>) 3) = 2748
   \<and> fst (ti_ads79xx_scan_direct (\<lambda>tx. (0, 0x2001)) (zeroed_state\<lparr>settings := 0x1040\<rparr>) 1) = - EAGAIN
   \<and> fst (ti_ads79xx_scan_direct (\<lambda>tx. (- 5, 0)) (zeroed_state\<lparr>settings := 0x1040\<rparr>) 1) = - 5"
proof -
  let ?st = "zeroed_state\<lparr>settings := 0x1040\<rparr>"
  have a: "(\<lambda>tx::u16. (0::int, 0x3ABC::u16)) (ti_ads79xx_cmd 3 (settings ?st)) = (0, 0x3ABC)" by simp
  have b: "(\<lambda>tx::u16. (0::int, 0x2001::u16)) (ti_ads79xx_cmd 1 (settings ?st)) = (0, 0x2001)" by simp
  have c: "(\<lambda>tx::u16. (- 5::int, 0::u16)) (ti_ads79xx_cmd 1 (settings ?st)) = (- 5, 0)" by simp
  have e1: "uint (drop_bit 12 (0x3ABC :: u16)) = uint (3 :: u32)" by simp
  have e2: "uint (take_bit 12 (0x3ABC :: u16)) = 2748" by simp
  have e3: "uint (drop_bit 12 (0x2001 :: u16)) \<noteq> uint (1 :: u32)" by simp
  from scan_direct_tag_check[where bus="\<lambda>tx. (0, 0x3ABC)" and st="?st" and ch=3, OF a]
       scan_direct_tag_check[where bus="\<lambda>tx. (0, 0x2001)" and st="?st" and ch=1, OF b]
       scan_direct_tag_check[where bus="\<lambda>tx. (- 5, 0)" and st="?st" and ch=1, OF c]
       e1 e2 e3
  show ?thesis by simp
qed

subsection \<open>Scale\<close>

lemma sdiv_nonneg: "0 \<le> (v::int) \<Longrightarrow> v sdiv 1000 = v div 1000"
  by (simp add: signed_divide_int_def sgn_if)

lemma s32_id: "- 2147483648 \<le> k \<Longrightarrow> k < 2147483648 \<Longrightarrow> s32 k = k"
  unfolding s32_def by (rule signed_take_bit_int_eq_self) simp_all

lemma range_5v_bit: "s AND ADS79XX_CR_RANGE_5V \<noteq> 0 \<longleftrightarrow> bit s 6"
proof -
  have "s AND ADS79XX_CR_RANGE_5V = 0 \<longleftrightarrow> \<not> bit s 6"
    unfolding ADS79XX_CR_RANGE_5V_def
    by (simp only: push_bit_of_1 and_exp_eq_0_iff_not_bit)
  then show ?thesis by simp
qed

lemma get_range_result:
  assumes "0 \<le> v" and "v < 2 ^ 31"
  shows "ti_ads79xx_get_range v st
     = (if bit (settings st) 6 then 2 * (v div 1000) else v div 1000)"
    and "0 \<le> ti_ads79xx_get_range v st"
    and "ti_ads79xx_get_range v st < 2 ^ 31"
proof -
  have d: "0 \<le> v div 1000" using assms(1) by simp
  have "v div 1000 \<le> 2147483" using assms(2) by simp
  then have u: "2 * (v div 1000) < 2 ^ 31" by simp
  have s: "s32 (v div 1000 * 2) = 2 * (v div 1000)"
    using d u by (simp add: s32_id mult.commute)
  show "ti_ads79xx_get_range v st
     = (if bit (settings st) 6 then 2 * (v div 1000) else v div 1000)"
    using assms(1) s by (simp add: ti_ads79xx_get_range_def sdiv_nonneg range_5v_bit Let_def)
  then show "0 \<le> ti_ads79xx_get_range v st" and "ti_ads79xx_get_range v st < 2 ^ 31"
    using d u by (simp_all split: if_splits)
qed

lemma voltage_channel_bits:
  assumes "chan \<in> set (info_channels (ti_ads79xx_chip_info v))"
    and "chan_type chan = IIO_VOLTAGE"
  shows "realbits (scan_type chan) = variant_bits v"
    and "shift (scan_type chan) = 12 - variant_bits v"
    and "variant_bits v \<le> 12"
    and "address chan < 16"
  using assms
  by (cases v;
    auto simp: chip_info_of_def ti_ads79xx_channels_defs ADS79XX_V_CHAN_def
      IIO_CHAN_SOFT_TIMESTAMP_def)+

text \<open>
  Claim C4. For every regulator reading of \<open>v_uV\<close> microvolts, a C \<open>int\<close>, that is not negative,
  \<open>ti_ads79xx_get_range\<close> returns \<open>2 * (v_uV div 1000)\<close> when the 5V-range bit (bit 6) of the
  settings is set and \<open>v_uV div 1000\<close> when it is clear, and \<open>ti_ads79xx_read_raw\<close> with the mask
  \<open>IIO_CHAN_INFO_SCALE\<close> on a voltage channel returns \<open>IIO_VAL_FRACTIONAL\<close> with that value in
  \<open>*val\<close> and \<open>2 ^ realbits - 1\<close> in \<open>*val2\<close>. A negative reading is returned unchanged by both,
  and \<open>*val\<close> and \<open>*val2\<close> are left as they were.
\<close>

theorem scale_fraction:
  assumes "chan \<in> set (info_channels (ti_ads79xx_chip_info v))"
    and "chan_type chan = IIO_VOLTAGE"
    and "v_uV < 2 ^ 31"
  shows "(0 \<le> v_uV \<longrightarrow>
            ti_ads79xx_get_range v_uV (priv d)
              = (if bit (settings (priv d)) 6 then 2 * (v_uV div 1000) else v_uV div 1000)
            \<and> ti_ads79xx_read_raw bus v_uV d chan val val2 IIO_CHAN_INFO_SCALE
              = (IIO_VAL_FRACTIONAL, ti_ads79xx_get_range v_uV (priv d),
                 2 ^ realbits (scan_type chan) - 1, d))
     \<and> (v_uV < 0 \<longrightarrow>
            ti_ads79xx_get_range v_uV (priv d) = v_uV
            \<and> ti_ads79xx_read_raw bus v_uV d chan val val2 IIO_CHAN_INFO_SCALE
              = (v_uV, val, val2, d))"
proof -
  note vb = voltage_channel_bits[OF assms(1,2)]
  have "(2::int) ^ realbits (scan_type chan) \<le> 2 ^ 12"
    using vb(1,3) by (intro power_increasing) simp_all
  then have p: "(2::int) ^ realbits (scan_type chan) \<le> 4096" by simp
  have p0: "(0::int) < 2 ^ realbits (scan_type chan)" by simp
  have m1: "s32 (2 ^ realbits (scan_type chan)) = 2 ^ realbits (scan_type chan)"
    using p p0 by (intro s32_id) linarith+
  have m2: "s32 (2 ^ realbits (scan_type chan) - 1) = 2 ^ realbits (scan_type chan) - 1"
    using p p0 by (intro s32_id) linarith+
  have m: "s32 (s32 (push_bit (realbits (scan_type chan)) 1) - 1)
      = 2 ^ realbits (scan_type chan) - 1"
    by (simp add: push_bit_of_1 m1 m2)
  have ne: "IIO_CHAN_INFO_SCALE \<noteq> IIO_CHAN_INFO_RAW"
    by (simp add: IIO_CHAN_INFO_SCALE_def IIO_CHAN_INFO_RAW_def)
  show ?thesis
  proof (intro conjI impI)
    assume nn: "0 \<le> v_uV"
    note gr = get_range_result[OF nn assms(3), of "priv d"]
    show "ti_ads79xx_get_range v_uV (priv d)
              = (if bit (settings (priv d)) 6 then 2 * (v_uV div 1000) else v_uV div 1000)"
      by (rule gr(1))
    show "ti_ads79xx_read_raw bus v_uV d chan val val2 IIO_CHAN_INFO_SCALE
              = (IIO_VAL_FRACTIONAL, ti_ads79xx_get_range v_uV (priv d),
                 2 ^ realbits (scan_type chan) - 1, d)"
      using gr(2) ne m by (simp add: ti_ads79xx_read_raw_def Let_def)
  next
    assume neg: "v_uV < 0"
    then show g: "ti_ads79xx_get_range v_uV (priv d) = v_uV"
      by (simp add: ti_ads79xx_get_range_def)
    show "ti_ads79xx_read_raw bus v_uV d chan val val2 IIO_CHAN_INFO_SCALE
              = (v_uV, val, val2, d)"
      using neg ne g by (simp add: ti_ads79xx_read_raw_def Let_def)
  qed
qed

text \<open>A reference of 2500000 microvolts in the 5V range on a 12-bit part gives the fraction
  5000 / 4095; the reading \<open>-22\<close> is returned as it is.\<close>

theorem scale_fraction_witness:
  "ADS79XX_V_CHAN 0 12 \<in> set (info_channels (ti_ads79xx_chip_info ADS7950))
   \<and> chan_type (ADS79XX_V_CHAN 0 12) = IIO_VOLTAGE
   \<and> (2500000::int) < 2 ^ 31 \<and> (0::int) \<le> 2500000
   \<and> bit (settings (zeroed_state\<lparr>settings := 0x1040\<rparr>)) 6
   \<and> ti_ads79xx_get_range 2500000 (zeroed_state\<lparr>settings := 0x1040\<rparr>) = 5000
   \<and> ti_ads79xx_read_raw (\<lambda>tx. (0, 0)) 2500000
        \<lparr>channels = ti_ads7950_channels, num_channels = 5,
         priv = zeroed_state\<lparr>settings := 0x1040\<rparr>\<rparr>
        (ADS79XX_V_CHAN 0 12) 0 0 IIO_CHAN_INFO_SCALE
       = (IIO_VAL_FRACTIONAL, 5000, 4095,
          \<lparr>channels = ti_ads7950_channels, num_channels = 5,
           priv = zeroed_state\<lparr>settings := 0x1040\<rparr>\<rparr>)
   \<and> (- 22::int) < 2 ^ 31 \<and> (- 22::int) < 0
   \<and> ti_ads79xx_get_range (- 22) (zeroed_state\<lparr>settings := 0x1040\<rparr>) = - 22
   \<and> ti_ads79xx_read_raw (\<lambda>tx. (0, 0)) (- 22)
        \<lparr>channels = ti_ads7950_channels, num_channels = 5,
         priv = zeroed_state\<lparr>settings := 0x1040\<rparr>\<rparr>
        (ADS79XX_V_CHAN 0 12) 7 9 IIO_CHAN_INFO_SCALE
       = (- 22, 7, 9,
          \<lparr>channels = ti_ads7950_channels, num_channels = 5,
           priv = zeroed_state\<lparr>settings := 0x1040\<rparr>\<rparr>)"
proof -
  let ?d = "\<lparr>channels = ti_ads7950_channels, num_channels = 5,
         priv = zeroed_state\<lparr>settings := 0x1040\<rparr>\<rparr>"
  have h1: "ADS79XX_V_CHAN 0 12 \<in> set (info_channels (ti_ads79xx_chip_info ADS7950))"
    by (simp add: chip_info_of_def ti_ads79xx_channels_defs)
  have h2: "chan_type (ADS79XX_V_CHAN 0 12) = IIO_VOLTAGE"
    by (simp add: ADS79XX_V_CHAN_def)
  have h3: "(2500000::int) < 2 ^ 31" by simp
  have h4: "(- 22::int) < 2 ^ 31" by simp
  have b: "bit (settings (zeroed_state\<lparr>settings := 0x1040\<rparr>)) 6"
    by simp
  have rb: "realbits (scan_type (ADS79XX_V_CHAN 0 12)) = 12"
    by (simp add: ADS79XX_V_CHAN_def)
  from scale_fraction[OF h1 h2 h3, of ?d "\<lambda>tx. (0, 0)" 0 0]
       scale_fraction[OF h1 h2 h4, of ?d "\<lambda>tx. (0, 0)" 7 9]
       h1 h2 b rb
  show ?thesis by simp
qed

subsection \<open>Raw samples\<close>

lemma read_raw_RAW:
  "ti_ads79xx_read_raw bus v d chan val val2 IIO_CHAN_INFO_RAW =
     (let (ret, st) = ti_ads79xx_scan_direct bus (priv d) (of_nat (address chan))
      in if ret < 0 then (ret, val, val2, d\<lparr>priv := st\<rparr>)
         else (IIO_VAL_INT, drop_bit (shift (scan_type chan)) ret, val2, d\<lparr>priv := st\<rparr>))"
  by (simp add: ti_ads79xx_read_raw_def)

lemma drop_bit_sample_bounds:
  assumes "0 \<le> s" and "s < 4096" and "r \<le> 12"
  shows "0 \<le> drop_bit (12 - r) (s::int)" and "drop_bit (12 - r) s < 2 ^ r"
proof -
  show "0 \<le> drop_bit (12 - r) s" using assms(1) by simp
  have "take_bit 12 s = s"
    using assms(1,2) by (intro take_bit_int_eq_self) simp_all
  then have "drop_bit (12 - r) s = drop_bit (12 - r) (take_bit 12 s)" by simp
  also have "\<dots> = take_bit (12 - (12 - r)) (drop_bit (12 - r) s)"
    by (rule drop_bit_take_bit)
  also have "\<dots> = take_bit r (drop_bit (12 - r) s)"
    using assms(3) by simp
  also have "\<dots> < 2 ^ r" by (rule take_bit_int_less_exp)
  finally show "drop_bit (12 - r) s < 2 ^ r" .
qed

text \<open>
  Claim C5. For every voltage channel of a variant with real resolution \<open>r\<close> and every successful
  single-shot sample \<open>s\<close> (the status of the bus is 0 or a negative error, and
  \<open>ti_ads79xx_scan_direct\<close> returns \<open>s \<ge> 0\<close>), \<open>ti_ads79xx_read_raw\<close> with the mask
  \<open>IIO_CHAN_INFO_RAW\<close> returns \<open>IIO_VAL_INT\<close> with \<open>s >> (12 - r)\<close> in \<open>*val\<close>, a value in
  \<open>0..2^r - 1\<close>.
\<close>

theorem read_raw_sample:
  assumes "chan \<in> set (info_channels (ti_ads79xx_chip_info v))"
    and "chan_type chan = IIO_VOLTAGE"
    and "fst (bus (ti_ads79xx_cmd (of_nat (address chan)) (settings (priv d)))) \<le> 0"
    and "ti_ads79xx_scan_direct bus (priv d) (of_nat (address chan)) = (s, st)"
    and "0 \<le> s"
  shows "ti_ads79xx_read_raw bus v_uV d chan val val2 IIO_CHAN_INFO_RAW
       = (IIO_VAL_INT, drop_bit (12 - variant_bits v) s, val2, d\<lparr>priv := st\<rparr>)
     \<and> 0 \<le> drop_bit (12 - variant_bits v) s
     \<and> drop_bit (12 - variant_bits v) s \<le> 2 ^ variant_bits v - 1"
proof -
  note vb = voltage_channel_bits[OF assms(1,2)]
  obtain ret rx where b: "bus (ti_ads79xx_cmd (of_nat (address chan)) (settings (priv d))) = (ret, rx)"
    by (cases "bus (ti_ads79xx_cmd (of_nat (address chan)) (settings (priv d)))")
  note sd = scan_direct_result[where bus=bus and st="priv d" and ch="of_nat (address chan)", OF b]
  have ret0: "ret = 0"
  proof (rule ccontr)
    assume "ret \<noteq> 0"
    with sd assms(4) have "s = ret" by simp
    with assms(3,5) b \<open>ret \<noteq> 0\<close> show False by simp
  qed
  have "s = uint (take_bit 12 rx)"
  proof (cases "uint (drop_bit 12 rx) = uint (of_nat (address chan) :: u32)")
    case True
    with sd assms(4) ret0 show ?thesis by simp
  next
    case False
    with sd assms(4) ret0 have "s = - EAGAIN" by simp
    with assms(5) show ?thesis by (simp add: EAGAIN_def)
  qed
  then have s4: "s < 4096" using low12_bounds[of rx] by simp
  note bd = drop_bit_sample_bounds[OF assms(5) s4 vb(3)]
  have rr: "ti_ads79xx_read_raw bus v_uV d chan val val2 IIO_CHAN_INFO_RAW
       = (IIO_VAL_INT, drop_bit (12 - variant_bits v) s, val2, d\<lparr>priv := st\<rparr>)"
    using assms(4,5) vb(2) by (simp add: read_raw_RAW)
  from rr bd show ?thesis by simp
qed

text \<open>Channel 3 of the 10-bit ADS7954 answered with \<open>0x3ABC\<close>: the sample 2748 is shifted by 2
  and read as 687.\<close>

theorem read_raw_sample_witness:
  "ADS79XX_V_CHAN 3 10 \<in> set (info_channels (ti_ads79xx_chip_info ADS7954))
   \<and> chan_type (ADS79XX_V_CHAN 3 10) = IIO_VOLTAGE
   \<and> fst ((\<lambda>tx. (0, 0x3ABC)) (ti_ads79xx_cmd (of_nat (address (ADS79XX_V_CHAN 3 10)))
         (settings (priv \<lparr>channels = ti_ads7954_channels, num_channels = 5,
            priv = zeroed_state\<lparr>settings := 0x1040\<rparr>\<rparr>)))) \<le> (0::int)
   \<and> ti_ads79xx_scan_direct (\<lambda>tx. (0, 0x3ABC))
         (priv \<lparr>channels = ti_ads7954_channels, num_channels = 5,
            priv = zeroed_state\<lparr>settings := 0x1040\<rparr>\<rparr>)
         (of_nat (address (ADS79XX_V_CHAN 3 10)))
       = (2748, zeroed_state\<lparr>settings := 0x1040, single_tx := 0x19C0, single_rx := 0x3ABC\<rparr>)
   \<and> variant_bits ADS7954 = 10
   \<and> ti_ads79xx_read_raw (\<lambda>tx. (0, 0x3ABC)) 2500000
         \<lparr>channels = ti_ads7954_channels, num_channels = 5,
            priv = zeroed_state\<lparr>settings := 0x1040\<rparr>\<rparr>
         (ADS79XX_V_CHAN 3 10) 0 0 IIO_CHAN_INFO_RAW
       = (IIO_VAL_INT, 687, 0,
          \<lparr>channels = ti_ads7954_channels, num_channels = 5,
            priv = zeroed_state\<lparr>settings := 0x1040, single_tx := 0x19C0, single_rx := 0x3ABC\<rparr>\<rparr>)
   \<and> (0::int) \<le> 687 \<and> (687::int) \<le> 2 ^ 10 - 1"
proof -
  let ?d = "\<lparr>channels = ti_ads7954_channels, num_channels = 5,
            priv = zeroed_state\<lparr>settings := 0x1040\<rparr>\<rparr>"
  let ?bus = "\<lambda>tx::u16. (0::int, 0x3ABC::u16)"
  let ?st = "zeroed_state\<lparr>settings := 0x1040, single_tx := 0x19C0, single_rx := 0x3ABC\<rparr>"
  have h1: "ADS79XX_V_CHAN 3 10 \<in> set (info_channels (ti_ads79xx_chip_info ADS7954))"
    by (simp add: chip_info_of_def ti_ads79xx_channels_defs)
  have h2: "chan_type (ADS79XX_V_CHAN 3 10) = IIO_VOLTAGE"
    by (simp add: ADS79XX_V_CHAN_def)
  have h3: "fst (?bus (ti_ads79xx_cmd (of_nat (address (ADS79XX_V_CHAN 3 10)))
         (settings (priv ?d)))) \<le> 0" by simp
  have a: "address (ADS79XX_V_CHAN 3 10) = 3" by (simp add: ADS79XX_V_CHAN_def)
  have b: "?bus (ti_ads79xx_cmd 3 (settings (priv ?d))) = (0, 0x3ABC)" by simp
  have c: "ti_ads79xx_cmd 3 (0x1040 :: u32) = 0x19C0"
    by (simp add: ti_ads79xx_cmd_def ADS79XX_CR_WRITE_def ADS79XX_CR_CHAN_def)
  have h4: "ti_ads79xx_scan_direct ?bus (priv ?d) (of_nat (address (ADS79XX_V_CHAN 3 10)))
      = (2748, ?st)"
    using scan_direct_result[where bus="?bus" and st="priv ?d" and ch=3, OF b] a c
    by simp
  have h5: "(0::int) \<le> 2748" by simp
  have sh: "drop_bit (12 - variant_bits ADS7954) (2748::int) = 687"
    by (simp add: drop_bit_eq_div)
  from read_raw_sample[OF h1 h2 h3 h4 h5, of 2500000 0 0] h1 h2 h3 h4 sh
  show ?thesis by simp
qed

subsection \<open>Other info masks\<close>

text \<open>
  Claim C8, as the code has it. For every info mask that is neither \<open>IIO_CHAN_INFO_RAW\<close> nor
  \<open>IIO_CHAN_INFO_SCALE\<close>, \<open>ti_ads79xx_read_raw\<close> returns \<open>-EINVAL\<close>, the "invalid argument" error
  code, and leaves \<open>*val\<close>, \<open>*val2\<close> and the device as they were.
\<close>

theorem read_raw_invalid_mask:
  assumes "m \<noteq> IIO_CHAN_INFO_RAW" and "m \<noteq> IIO_CHAN_INFO_SCALE"
  shows "ti_ads79xx_read_raw bus v_uV d chan val val2 m = (- EINVAL, val, val2, d)"
  using assms by (simp add: ti_ads79xx_read_raw_def)

text \<open>The mask 1 (\<open>IIO_CHAN_INFO_PROCESSED\<close>) is answered with \<open>-22\<close>.\<close>

theorem read_raw_invalid_mask_witness:
  "(1::int) \<noteq> IIO_CHAN_INFO_RAW \<and> (1::int) \<noteq> IIO_CHAN_INFO_SCALE
   \<and> ti_ads79xx_read_raw (\<lambda>tx. (0, 0)) 2500000
        \<lparr>channels = ti_ads7950_channels, num_channels = 5,
         priv = zeroed_state\<lparr>settings := 0x1040\<rparr>\<rparr>
        (ADS79XX_V_CHAN 0 12) 7 9 1
      = (- 22, 7, 9, \<lparr>channels = ti_ads7950_channels, num_channels = 5,
         priv = zeroed_state\<lparr>settings := 0x1040\<rparr>\<rparr>)"
proof -
  have h1: "(1::int) \<noteq> IIO_CHAN_INFO_RAW" by (simp add: IIO_CHAN_INFO_RAW_def)
  have h2: "(1::int) \<noteq> IIO_CHAN_INFO_SCALE" by (simp add: IIO_CHAN_INFO_SCALE_def)
  from read_raw_invalid_mask[OF h1 h2] h1 h2 show ?thesis by (simp add: EINVAL_def)
qed

text \<open>Claim C8 as the specification states it, with the "not supported" error code, fails: the
  mask 1 is neither \<open>IIO_CHAN_INFO_RAW\<close> nor \<open>IIO_CHAN_INFO_SCALE\<close>, and the value returned for
  it is \<open>-EINVAL\<close>, which is neither \<open>-EOPNOTSUPP\<close> nor \<open>-ENOTSUPP\<close>.\<close>

theorem read_raw_invalid_mask_counterexample:
  "(1::int) \<noteq> IIO_CHAN_INFO_RAW \<and> (1::int) \<noteq> IIO_CHAN_INFO_SCALE
   \<and> fst (ti_ads79xx_read_raw (Pair 0) 2500000
          \<lparr>channels = ti_ads7950_channels, num_channels = 5,
           priv = zeroed_state\<lparr>settings := 0x1040\<rparr>\<rparr>
          (ADS79XX_V_CHAN 0 12) 0 0 1) = - EINVAL
   \<and> fst (ti_ads79xx_read_raw (Pair 0) 2500000
          \<lparr>channels = ti_ads7950_channels, num_channels = 5,
           priv = zeroed_state\<lparr>settings := 0x1040\<rparr>\<rparr>
          (ADS79XX_V_CHAN 0 12) 0 0 1) \<noteq> - EOPNOTSUPP
   \<and> fst (ti_ads79xx_read_raw (Pair 0) 2500000
          \<lparr>channels = ti_ads7950_channels, num_channels = 5,
           priv = zeroed_state\<lparr>settings := 0x1040\<rparr>\<rparr>
          (ADS79XX_V_CHAN 0 12) 0 0 1) \<noteq> - ENOTSUPP"
  by (simp add: ti_ads79xx_read_raw_def IIO_CHAN_INFO_RAW_def IIO_CHAN_INFO_SCALE_def
      EINVAL_def EOPNOTSUPP_def ENOTSUPP_def)

subsection \<open>The trigger handler\<close>

text \<open>
  Claim C6. Let the ring transfer end with the status \<open>err\<close> and the state \<open>st\<close>. Every run of
  \<open>ti_ads79xx_trigger_handler\<close> returns \<open>IRQ_HANDLED\<close> and notifies the trigger exactly once. If
  the transfer fails (\<open>err \<noteq> 0\<close>) the notification is all it does: nothing is pushed. If it
  succeeds, it pushes once, before the notification, and the payload starts at word 2 of
  \<open>rx_buf\<close>.
\<close>

theorem trigger_handler_notifies_once:
  assumes "spi_sync_ring bus (priv d) = (err, st)"
  shows "\<exists>evs. ti_ads79xx_trigger_handler bus time_ns d = (IRQ_HANDLED, d\<lparr>priv := st\<rparr>, evs)
     \<and> count_list evs Trigger_notify_done = 1
     \<and> (err \<noteq> 0 \<longrightarrow> evs = [Trigger_notify_done]
            \<and> (\<forall>payload ts. Push_to_buffers payload ts \<notin> set evs))
     \<and> (err = 0 \<longrightarrow> evs = [Push_to_buffers (drop 2 (rx_buf st)) time_ns, Trigger_notify_done])"
  using assms by (simp add: ti_ads79xx_trigger_handler_def)

text \<open>A scan of two channels: a transfer that brings \<open>[0, 0, 0x0AAA, 0x1BBB]\<close> pushes a payload
  that starts with \<open>0x0AAA\<close>, \<open>0x1BBB\<close>; a transfer that fails with \<open>-5\<close> pushes nothing. Both
  notify the trigger.\<close>

theorem trigger_handler_notifies_once_witness:
  "spi_sync_ring (\<lambda>tx. (0, [0, 0, 0x0AAA, 0x1BBB]))
      (zeroed_state\<lparr>settings := 0x1040, ring_xfer_len := 8\<rparr>)
     = (0, zeroed_state\<lparr>settings := 0x1040, ring_xfer_len := 8,
            rx_buf := [0, 0, 0x0AAA, 0x1BBB] @ replicate 22 0\<rparr>)
   \<and> ti_ads79xx_trigger_handler (\<lambda>tx. (0, [0, 0, 0x0AAA, 0x1BBB])) 1000
        \<lparr>channels = ti_ads7950_channels, num_channels = 5,
         priv = zeroed_state\<lparr>settings := 0x1040, ring_xfer_len := 8\<rparr>\<rparr>
     = (IRQ_HANDLED,
        \<lparr>channels = ti_ads7950_channels, num_channels = 5,
         priv = zeroed_state\<lparr>settings := 0x1040, ring_xfer_len := 8,
            rx_buf := [0, 0, 0x0AAA, 0x1BBB] @ replicate 22 0\<rparr>\<rparr>,
        [Push_to_buffers ([0x0AAA, 0x1BBB] @ replicate 22 0) 1000, Trigger_notify_done])
   \<and> spi_sync_ring (\<lambda>tx. (- 5, []))
      (zeroed_state\<lparr>settings := 0x1040, ring_xfer_len := 8\<rparr>)
     = (- 5, zeroed_state\<lparr>settings := 0x1040, ring_xfer_len := 8\<rparr>)
   \<and> ti_ads79xx_trigger_handler (\<lambda>tx. (- 5, [])) 1000
        \<lparr>channels = ti_ads7950_channels, num_channels = 5,
         priv = zeroed_state\<lparr>settings := 0x1040, ring_xfer_len := 8\<rparr>\<rparr>
     = (IRQ_HANDLED,
        \<lparr>channels = ti_ads7950_channels, num_channels = 5,
         priv = zeroed_state\<lparr>settings := 0x1040, ring_xfer_len := 8\<rparr>\<rparr>,
        [Trigger_notify_done])"
proof -
  let ?st = "zeroed_state\<lparr>settings := 0x1040, ring_xfer_len := 8\<rparr>"
  let ?d = "\<lparr>channels = ti_ads7950_channels, num_channels = 5, priv = ?st\<rparr>"
  let ?st1 = "zeroed_state\<lparr>settings := 0x1040, ring_xfer_len := 8,
            rx_buf := [0, 0, 0x0AAA, 0x1BBB] @ replicate 22 0\<rparr>"
  have r22: "replicate 22 (0::u16) = drop 4 (replicate 26 0)" by simp
  have a: "spi_sync_ring (\<lambda>tx. (0, [0, 0, 0x0AAA, 0x1BBB])) (priv ?d) = (0, ?st1)"
    by (simp add: spi_sync_ring_def zeroed_state_def ADS79XX_MAX_CHAN_def)
  have b: "spi_sync_ring (\<lambda>tx. (- 5, [])) (priv ?d) = (- 5, ?st)"
    by (simp add: spi_sync_ring_def zeroed_state_def ADS79XX_MAX_CHAN_def)
  have ne: "(- 5 :: int) \<noteq> 0" by simp
  from trigger_handler_notifies_once[where bus="\<lambda>tx. (0, [0, 0, 0x0AAA, 0x1BBB])" and d="?d", OF a, of 1000]
  obtain evs1 where e1: "ti_ads79xx_trigger_handler (\<lambda>tx. (0, [0, 0, 0x0AAA, 0x1BBB])) 1000 ?d
        = (IRQ_HANDLED, ?d\<lparr>priv := ?st1\<rparr>, evs1)"
     and e1': "evs1 = [Push_to_buffers (drop 2 (rx_buf ?st1)) 1000, Trigger_notify_done]"
    by blast
  from trigger_handler_notifies_once[where bus="\<lambda>tx. (- 5, [])" and d="?d", OF b, of 1000] ne
  obtain evs2 where e2: "ti_ads79xx_trigger_handler (\<lambda>tx. (- 5, [])) 1000 ?d
        = (IRQ_HANDLED, ?d\<lparr>priv := ?st\<rparr>, evs2)"
     and e2': "evs2 = [Trigger_notify_done]"
    by blast
  from a b e1 e1' e2 e2' show ?thesis by simp
qed

subsection \<open>The settings word\<close>

lemma tx_buf_store_settings:
  "tx_buf_store st len v = Inr st' \<Longrightarrow> settings st' = settings st"
  by (auto simp: tx_buf_store_def split: if_splits)

lemma scan_mode_loop_settings:
  "scan_mode_loop bs st len = Inr (st', len') \<Longrightarrow> settings st' = settings st"
proof (induction bs arbitrary: st len)
  case Nil
  then show ?case by simp
next
  case (Cons i rest)
  then show ?case
    by (auto split: sum.splits dest: tx_buf_store_settings)
qed

lemma update_scan_mode_settings:
  assumes "ti_ads79xx_update_scan_mode d m = Inr (d', r)"
  shows "settings (priv d') = settings (priv d)"
  using assms
  by (auto simp: ti_ads79xx_update_scan_mode_def split: sum.splits prod.splits
      dest!: tx_buf_store_settings scan_mode_loop_settings)

lemma trigger_handler_settings:
  assumes "ti_ads79xx_trigger_handler bus t d = (r, d', evs)"
  shows "settings (priv d') = settings (priv d)"
  using assms
  by (auto simp: ti_ads79xx_trigger_handler_def spi_sync_ring_def Let_def split: prod.splits)

lemma scan_direct_settings:
  assumes "ti_ads79xx_scan_direct bus st ch = (r, st')"
  shows "settings st' = settings st"
  using assms
  by (auto simp: ti_ads79xx_scan_direct_def Let_def split: prod.splits if_splits)

lemma read_raw_settings:
  assumes "ti_ads79xx_read_raw bus v d chan val val2 m = (r, val', val2', d')"
  shows "settings (priv d') = settings (priv d)"
  using assms
  by (auto simp: ti_ads79xx_read_raw_def Let_def split: prod.splits if_splits
      dest: scan_direct_settings)

lemma run_op_settings:
  assumes "run_op d x = Inr d'"
  shows "settings (priv d') = settings (priv d)"
proof (cases x)
  case (Update_scan_mode m)
  with assms show ?thesis
    by (auto split: sum.splits prod.splits dest: update_scan_mode_settings)
next
  case (Trigger_handler bus t)
  with assms show ?thesis
    by (auto split: prod.splits dest: trigger_handler_settings)
next
  case (Read_raw bus v chan val val2 m)
  with assms show ?thesis
    by (auto split: prod.splits dest: read_raw_settings)
qed

lemma run_ops_settings:
  "run_ops d xs = Inr d' \<Longrightarrow> settings (priv d') = settings (priv d)"
proof (induction xs arbitrary: d)
  case Nil
  then show ?case by simp
next
  case (Cons x xs)
  then show ?case
    by (auto split: sum.splits dest: run_op_settings)
qed

lemma probe_settings:
  assumes "ti_ads79xx_probe env v = (r, Some d)"
  shows "settings (priv d) = ADS79XX_CR_MANUAL OR ADS79XX_CR_RANGE_5V"
  using assms
  by (auto simp: ti_ads79xx_probe_def Let_def split: if_splits)

lemma settings_bits:
  "bit (ADS79XX_CR_MANUAL OR ADS79XX_CR_RANGE_5V) n \<longleftrightarrow> n = 12 \<or> n = 6"
  unfolding ADS79XX_CR_MANUAL_def ADS79XX_CR_RANGE_5V_def
  by (auto simp only: bit_or_iff bit_push_bit_iff bit_1_iff possible_bit_word) simp_all

lemma run_op_trigger_total: "\<exists>d'. run_op d (Trigger_handler bus t) = Inr d'"
  by (cases "ti_ads79xx_trigger_handler bus t d") simp

lemma run_op_read_raw_total: "\<exists>d'. run_op d (Read_raw bus v chan val val2 m) = Inr d'"
  by (cases "ti_ads79xx_read_raw bus v d chan val val2 m") simp

text \<open>The buffers keep their sizes and the device keeps its channel table, from the probe
  on.\<close>

lemma spi_sync_ring_ok:
  assumes "spi_sync_ring bus st = (err, st')"
  shows "length (rx_buf st') = length (rx_buf st) \<and> tx_buf st' = tx_buf st"
  using assms
  by (auto simp: spi_sync_ring_def Let_def split: prod.splits)

lemma scan_mode_loop_length:
  "scan_mode_loop bs st len = Inr (st', len') \<Longrightarrow>
     length (tx_buf st') = length (tx_buf st) \<and> rx_buf st' = rx_buf st"
proof (induction bs arbitrary: st len)
  case Nil
  then show ?case by simp
next
  case (Cons i rest)
  then show ?case
    by (fastforce split: sum.splits dest: tx_buf_store_length)
qed

lemma update_scan_mode_ok:
  assumes "ti_ads79xx_update_scan_mode d m = Inr (d', r)"
  shows "state_ok (priv d') = state_ok (priv d)"
    and "num_channels d' = num_channels d" and "channels d' = channels d"
  using assms
  by (auto simp: ti_ads79xx_update_scan_mode_def state_ok_def split: sum.splits prod.splits
      dest!: tx_buf_store_length scan_mode_loop_length)

lemma trigger_handler_ok:
  assumes "ti_ads79xx_trigger_handler bus t d = (r, d', evs)"
  shows "state_ok (priv d') = state_ok (priv d)"
    and "num_channels d' = num_channels d" and "channels d' = channels d"
  using assms
  by (auto simp: ti_ads79xx_trigger_handler_def state_ok_def Let_def split: prod.splits
      dest!: spi_sync_ring_ok)

lemma scan_direct_ok:
  assumes "ti_ads79xx_scan_direct bus st ch = (r, st')"
  shows "state_ok st' = state_ok st"
  using assms
  by (auto simp: ti_ads79xx_scan_direct_def state_ok_def Let_def split: prod.splits if_splits)

lemma read_raw_ok:
  assumes "ti_ads79xx_read_raw bus v d chan val val2 m = (r, val', val2', d')"
  shows "state_ok (priv d') = state_ok (priv d)"
    and "num_channels d' = num_channels d" and "channels d' = channels d"
  using assms
  by (auto simp: ti_ads79xx_read_raw_def Let_def split: prod.splits if_splits
      dest: scan_direct_ok)

lemma run_op_ok:
  assumes "run_op d x = Inr d'"
  shows "state_ok (priv d') = state_ok (priv d) \<and> num_channels d' = num_channels d
    \<and> channels d' = channels d"
proof (cases x)
  case (Update_scan_mode m)
  with assms show ?thesis
    by (auto split: sum.splits prod.splits dest: update_scan_mode_ok)
next
  case (Trigger_handler bus t)
  with assms show ?thesis
    by (auto split: prod.splits dest: trigger_handler_ok)
next
  case (Read_raw bus v chan val val2 m)
  with assms show ?thesis
    by (auto split: prod.splits dest: read_raw_ok)
qed

lemma run_ops_ok:
  "run_ops d xs = Inr d' \<Longrightarrow>
     state_ok (priv d') = state_ok (priv d) \<and> num_channels d' = num_channels d
     \<and> channels d' = channels d"
proof (induction xs arbitrary: d)
  case Nil
  then show ?case by simp
next
  case (Cons x xs)
  then show ?case
    by (fastforce split: sum.splits dest: run_op_ok)
qed

lemma probe_ok:
  assumes "ti_ads79xx_probe env v = (r, Some d)"
  shows "r = 0" and "state_ok (priv d)"
    and "num_channels d = info_num_channels (ti_ads79xx_chip_info v)"
    and "channels d = info_channels (ti_ads79xx_chip_info v)"
  using assms
  by (auto simp: ti_ads79xx_probe_def Let_def state_ok_def zeroed_state_def split: if_splits)

lemma reachable_device_ok:
  assumes "ti_ads79xx_probe env v = (r, Some d0)" and "run_ops d0 xs = Inr d"
  shows "state_ok (priv d)"
    and "num_channels d = info_num_channels (ti_ads79xx_chip_info v)"
    and "channels d = info_channels (ti_ads79xx_chip_info v)"
  using probe_ok[OF assms(1)] run_ops_ok[OF assms(2)] by simp_all

text \<open>
  Claim C9. A successful probe leaves the settings word at \<open>MANUAL | RANGE_5V\<close>. Every entry
  point that runs afterwards (\<open>ti_ads79xx_update_scan_mode\<close>, \<open>ti_ads79xx_trigger_handler\<close>,
  \<open>ti_ads79xx_read_raw\<close> with the single-shot read and the range computation it calls) leaves
  the word as it is, so after any sequence of them it is still \<open>MANUAL | RANGE_5V\<close>: no bit
  other than bit 12 and bit 6 is set in it. The range computation itself returns a number and
  has no state to change.
\<close>

theorem settings_invariant:
  assumes "ti_ads79xx_probe env v = (r, Some d0)"
    and "run_ops d0 xs = Inr d"
  shows "settings (priv d0) = ADS79XX_CR_MANUAL OR ADS79XX_CR_RANGE_5V
     \<and> settings (priv d) = ADS79XX_CR_MANUAL OR ADS79XX_CR_RANGE_5V
     \<and> (\<forall>n. bit (settings (priv d)) n \<longrightarrow> n = 12 \<or> n = 6)
     \<and> (\<forall>x d'. run_op d x = Inr d' \<longrightarrow> settings (priv d') = settings (priv d))"
proof -
  have a: "settings (priv d0) = ADS79XX_CR_MANUAL OR ADS79XX_CR_RANGE_5V"
    by (rule probe_settings[OF assms(1)])
  have b: "settings (priv d) = ADS79XX_CR_MANUAL OR ADS79XX_CR_RANGE_5V"
    using run_ops_settings[OF assms(2)] a by simp
  have c: "\<forall>n. bit (settings (priv d)) n \<longrightarrow> n = 12 \<or> n = 6"
    by (simp add: b settings_bits)
  have e: "\<forall>x d'. run_op d x = Inr d' \<longrightarrow> settings (priv d') = settings (priv d)"
    using run_op_settings by blast
  from a b c e show ?thesis by simp
qed

text \<open>The ADS7951 probed, then a scan over \<open>{1, 4, 7}\<close>, a trigger, a raw read and a scale
  read.\<close>

theorem settings_invariant_witness:
  "ti_ads79xx_probe
       \<lparr>spi_setup_ret = 0, alloc_ok = True, regulator_get_err = 0, regulator_enable_ret = 0,
        triggered_buffer_setup_ret = 0, device_register_ret = 0, sw_trigger_create_err = 0\<rparr>
       ADS7951
     = (0, Some \<lparr>channels = ti_ads7951_channels, num_channels = 9,
                 priv = zeroed_state\<lparr>settings := 0x1040\<rparr>\<rparr>)
   \<and> (\<exists>d. run_ops \<lparr>channels = ti_ads7951_channels, num_channels = 9,
                 priv = zeroed_state\<lparr>settings := 0x1040\<rparr>\<rparr>
             [Update_scan_mode 146,
              Trigger_handler (\<lambda>tx. (0, [0, 0, 0x1AAA, 0x4BBB, 0x7CCC])) 1000,
              Read_raw (\<lambda>tx. (0, 0x3ABC)) 2500000 (ADS79XX_V_CHAN 3 12) 0 0 IIO_CHAN_INFO_RAW,
              Read_raw (\<lambda>tx. (0, 0)) 2500000 (ADS79XX_V_CHAN 3 12) 0 0 IIO_CHAN_INFO_SCALE]
           = Inr d
         \<and> settings (priv d) = 0x1040
         \<and> (\<forall>n. bit (settings (priv d)) n \<longrightarrow> n = 12 \<or> n = 6))"
proof -
  let ?env = "\<lparr>spi_setup_ret = 0, alloc_ok = True, regulator_get_err = 0,
        regulator_enable_ret = 0, triggered_buffer_setup_ret = 0, device_register_ret = 0,
        sw_trigger_create_err = 0\<rparr>"
  let ?d0 = "\<lparr>channels = ti_ads7951_channels, num_channels = 9,
                 priv = zeroed_state\<lparr>settings := 0x1040\<rparr>\<rparr>"
  let ?x2 = "Trigger_handler (\<lambda>tx. (0, [0, 0, 0x1AAA, 0x4BBB, 0x7CCC])) 1000"
  let ?x3 = "Read_raw (\<lambda>tx. (0, 0x3ABC)) 2500000 (ADS79XX_V_CHAN 3 12) 0 0 IIO_CHAN_INFO_RAW"
  let ?x4 = "Read_raw (\<lambda>tx. (0, 0)) 2500000 (ADS79XX_V_CHAN 3 12) 0 0 IIO_CHAN_INFO_SCALE"
  have s: "ADS79XX_CR_MANUAL OR ADS79XX_CR_RANGE_5V = 0x1040"
    by (simp add: ADS79XX_CR_MANUAL_def ADS79XX_CR_RANGE_5V_def)
  have p: "ti_ads79xx_probe ?env ADS7951 = (0, Some ?d0)"
    by (simp add: ti_ads79xx_probe_def chip_info_of_def ti_ads79xx_channels_defs s)
  have bs: "for_each_set_bit 146 9 = [1, 4, 7]" by code_simp
  have pre: "length (for_each_set_bit 146 (num_channels ?d0)) + 2 \<le> length (tx_buf (priv ?d0))"
    using bs by (simp add: zeroed_state_def ADS79XX_MAX_CHAN_def)
  from update_scan_mode_result[OF pre]
  obtain d1 where u: "ti_ads79xx_update_scan_mode ?d0 146 = Inr (d1, 0)" by simp
  then have r1: "run_op ?d0 (Update_scan_mode 146) = Inr d1" by simp
  from run_op_trigger_total obtain d2 where r2: "run_op d1 ?x2 = Inr d2" by blast
  from run_op_read_raw_total obtain d3 where r3: "run_op d2 ?x3 = Inr d3" by blast
  from run_op_read_raw_total obtain d4 where r4: "run_op d3 ?x4 = Inr d4" by blast
  have run: "run_ops ?d0 [Update_scan_mode 146, ?x2, ?x3, ?x4] = Inr d4"
    by (simp only: run_ops.simps r1 r2 r3 r4 sum.case)
  from settings_invariant[OF p run] have "settings (priv d4) = 0x1040"
    and "\<forall>n. bit (settings (priv d4)) n \<longrightarrow> n = 12 \<or> n = 6"
    by (simp_all add: s)
  with p run show ?thesis by blast
qed

end
